theory Spec2Isabelle
  imports Main "HOL-Library.Option_ord"
begin

section \<open>The edge agent of pecus-chain-data-intelligence (SyncWorker)\<close>

text \<open>
  The agent is the C\# class \<open>SyncWorker\<close>. Its methods are embedded one by one, under
  their own names. What the class does to the outside world (log lines, console, the
  configuration file, HTTP requests, waits) is collected as a list of events, in the order
  the code performs them; what the outside world answers (the contents of the local
  database, the HTTP responses, the clock, cancellation) is an argument of the function
  that asks.

  Identifiers are C\# \<open>long\<close> values. The worker only compares them, so they are
  integers here; the one place that computes with them (the mock batch) wraps at 64 bits.
  Date and time values are integers on one time axis (seconds).
\<close>

subsection \<open>Transfer records\<close>

text \<open>
  Each record keeps the columns that a query condition or a later step reads; the field
  ending in \<open>_other\<close> stands for the remaining columns, which the mapping helpers copy
  one by one. \<open>DelproHistoryAnimal\<close> is declared outside the given sources; only its
  \<open>ReferenceID\<close> column is read by the worker.
\<close>

record DelproBasicAnimal =
  ba_OID :: int
  ba_ExitDate :: "int option"
  ba_other :: string

record DelproHistoryAnimal =
  ha_ReferenceID :: "int option"
  ha_other :: string

record DelproAnimalsLactationsSummary =
  ls_OID :: int
  ls_Animal :: "int option"
  ls_other :: string

record DelproSessionsMilkYield =
  sm_OID :: "int option"
  sm_BeginTime :: "int option"
  sm_other :: string

record DelproVoluntarySessionsMilkYield =
  vs_OID :: int
  vs_other :: string

record DelproHistoryMilkDiversionInfo =
  md_OID :: int
  md_other :: string

record IngestPayload =
  farm_id :: string
  basic_animals :: "DelproBasicAnimal list"
  lactations_summary :: "DelproAnimalsLactationsSummary list"
  sessions_milk_yield :: "DelproSessionsMilkYield list"
  voluntary_sessions_milk_yield :: "DelproVoluntarySessionsMilkYield list"
  history_milk_diversion_info :: "DelproHistoryMilkDiversionInfo list"
  history_animals :: "DelproHistoryAnimal list"

record SyncStatusResponse =
  last_oid :: int
  last_animal_oid :: int
  last_lactation_oid :: int
  last_history_milk_diversion_oid :: int

record AgentConfig =
  FarmId :: "string option"
  DatabaseName :: "string option"
  PollingIntervalSeconds :: int

subsection \<open>Events\<close>

text \<open>
  A log line or console line is recorded with its message template; the pictographs and
  the leading line breaks of some messages are left out.
\<close>

datatype level = Information | Warning | Error

datatype event =
    Log level string
  | ConsoleWrite string
  | ConsoleReadLine
  | FileRead
  | FileWrite AgentConfig
  | HttpGetStatus string
  | HttpPostRegister string
  | HttpPostIngest IngestPayload
  | Delay int
  | DelayCancelled int

subsection \<open>The local store\<close>

text \<open>
  A table is the list of its rows. A read fault \<open>Some k\<close> says that reading a query's
  result throws after \<open>k\<close> rows have been added to the batch (\<open>k = 0\<close>: the query itself
  fails, as for a missing table); \<open>None\<close> says that the read completes.
\<close>

record LocalStore =
  conn_opens :: bool
  tbl_BasicAnimal :: "DelproBasicAnimal list"
  tbl_HistoryAnimal :: "DelproHistoryAnimal list"
  tbl_AnimalLactationSummary :: "DelproAnimalsLactationsSummary list"
  tbl_SessionMilkYield :: "DelproSessionsMilkYield list"
  tbl_VoluntarySessionMilkYield :: "DelproVoluntarySessionsMilkYield list"
  tbl_HistoryMilkDiversionInfo :: "DelproHistoryMilkDiversionInfo list"
  flt_BasicAnimal :: "nat option"
  flt_HistoryAnimal :: "nat option"
  flt_AnimalLactationSummary :: "nat option"
  flt_SessionCheck :: bool
  flt_SessionMilkYield :: "nat option"
  flt_VoluntarySessionMilkYield :: "nat option"
  flt_HistoryMilkDiversionInfo :: "nat option"

text \<open>The rows a \<open>while (r.Read()) list.Add(Map(r))\<close> loop leaves in the list.\<close>

definition rows_read :: "nat option \<Rightarrow> 'a list \<Rightarrow> 'a list" where
  "rows_read flt rows = (case flt of None \<Rightarrow> rows | Some k \<Rightarrow> take k rows)"

definition read_throws :: "nat option \<Rightarrow> bool" where
  "read_throws flt = (flt \<noteq> None)"

text \<open>\<open>SELECT TOP 2000 ... ORDER BY OID ASC\<close>; rows with equal keys keep the table's order.\<close>

definition batch_limit :: nat where
  "batch_limit = 2000"

definition top_by :: "('a \<Rightarrow> 'k::linorder) \<Rightarrow> 'a list \<Rightarrow> 'a list" where
  "top_by key rows = take batch_limit (sort_key key rows)"

text \<open>\<open>ExitDate IS NULL OR ExitDate > '{oneYearAgo}'\<close>\<close>

definition exit_recent :: "int \<Rightarrow> DelproBasicAnimal \<Rightarrow> bool" where
  "exit_recent oneYearAgo a =
     (case ba_ExitDate a of None \<Rightarrow> True | Some d \<Rightarrow> d > oneYearAgo)"

text \<open>A comparison with a NULL column is not true.\<close>

definition gt_col :: "int option \<Rightarrow> int \<Rightarrow> bool" where
  "gt_col c v = (case c of None \<Rightarrow> False | Some x \<Rightarrow> x > v)"

definition in_col :: "int option \<Rightarrow> int list \<Rightarrow> bool" where
  "in_col c vs = (case c of None \<Rightarrow> False | Some x \<Rightarrow> x \<in> set vs)"

text \<open>The date written as \<open>"2018-09-11"\<close> in the source, on the time axis of the model.\<close>

definition fallbackDate :: int where
  "fallbackDate = 1536624000"

text \<open>\<open>Enumerable.Min\<close> and \<open>Max\<close> over a nullable selector skip nulls; null when none is left.\<close>

definition nullable_Min :: "int option list \<Rightarrow> int option" where
  "nullable_Min xs =
     (case List.map_filter id xs of [] \<Rightarrow> None | y # ys \<Rightarrow> Some (fold min ys y))"

definition nullable_Max :: "int option list \<Rightarrow> int option" where
  "nullable_Max xs =
     (case List.map_filter id xs of [] \<Rightarrow> None | y # ys \<Rightarrow> Some (fold max ys y))"

subsection \<open>FetchBatchData, stream by stream\<close>

text \<open>1. ANIMALS\<close>

definition query_animals :: "LocalStore \<Rightarrow> int \<Rightarrow> int \<Rightarrow> DelproBasicAnimal list" where
  "query_animals db oneYearAgo lastAnimalOid =
     top_by ba_OID
       (filter (\<lambda>a. exit_recent oneYearAgo a \<and> ba_OID a > lastAnimalOid) (tbl_BasicAnimal db))"

definition fetch_animals :: "LocalStore \<Rightarrow> int \<Rightarrow> int \<Rightarrow> DelproBasicAnimal list" where
  "fetch_animals db oneYearAgo lastAnimalOid =
     rows_read (flt_BasicAnimal db) (query_animals db oneYearAgo lastAnimalOid)"

text \<open>1.1 HISTORY ANIMALS, inside the try block of the animals and behind \<open>animals.Any()\<close>\<close>

definition query_history :: "LocalStore \<Rightarrow> DelproBasicAnimal list \<Rightarrow> DelproHistoryAnimal list" where
  "query_history db animals =
     filter (\<lambda>h. in_col (ha_ReferenceID h) (map ba_OID animals)) (tbl_HistoryAnimal db)"

definition fetch_history :: "LocalStore \<Rightarrow> DelproBasicAnimal list \<Rightarrow> DelproHistoryAnimal list" where
  "fetch_history db animals =
     (if read_throws (flt_BasicAnimal db) then []
      else if animals \<noteq> [] then rows_read (flt_HistoryAnimal db) (query_history db animals)
      else [])"

text \<open>2. LACTATIONS, joined to the animals on \<open>L.Animal = A.OID\<close>\<close>

definition query_lactations ::
  "LocalStore \<Rightarrow> int \<Rightarrow> int \<Rightarrow> DelproAnimalsLactationsSummary list" where
  "query_lactations db oneYearAgo lastLactationOid =
     top_by ls_OID
       [l. l \<leftarrow> tbl_AnimalLactationSummary db, a \<leftarrow> tbl_BasicAnimal db,
           ls_Animal l = Some (ba_OID a), exit_recent oneYearAgo a, ls_OID l > lastLactationOid]"

definition fetch_lactations ::
  "LocalStore \<Rightarrow> int \<Rightarrow> int \<Rightarrow> DelproAnimalsLactationsSummary list" where
  "fetch_lactations db oneYearAgo lastLactationOid =
     rows_read (flt_AnimalLactationSummary db) (query_lactations db oneYearAgo lastLactationOid)"

text \<open>
  3. SESSIONS. With watermark 0 the query starts from a date; the check for recent rows
  swallows its own failure. The parameter \<open>@LastSessionOID\<close> is supplied only when the
  watermark is positive, so a negative watermark makes the query fail.
\<close>

definition hasRecentData :: "LocalStore \<Rightarrow> int \<Rightarrow> bool" where
  "hasRecentData db oneYearAgo =
     (if flt_SessionCheck db then False
      else filter (\<lambda>s. gt_col (sm_BeginTime s) oneYearAgo) (tbl_SessionMilkYield db) \<noteq> [])"

definition startDate :: "LocalStore \<Rightarrow> int \<Rightarrow> int" where
  "startDate db oneYearAgo = (if hasRecentData db oneYearAgo then oneYearAgo else fallbackDate)"

definition query_sessions :: "LocalStore \<Rightarrow> int \<Rightarrow> int \<Rightarrow> DelproSessionsMilkYield list" where
  "query_sessions db oneYearAgo lastSessionOid =
     (if lastSessionOid = 0
      then top_by sm_OID
             (filter (\<lambda>s. gt_col (sm_BeginTime s) (startDate db oneYearAgo)) (tbl_SessionMilkYield db))
      else top_by sm_OID
             (filter (\<lambda>s. gt_col (sm_OID s) lastSessionOid) (tbl_SessionMilkYield db)))"

definition sessions_throws :: "LocalStore \<Rightarrow> int \<Rightarrow> bool" where
  "sessions_throws db lastSessionOid =
     (lastSessionOid < 0 \<or> read_throws (flt_SessionMilkYield db))"

definition fetch_sessions :: "LocalStore \<Rightarrow> int \<Rightarrow> int \<Rightarrow> DelproSessionsMilkYield list" where
  "fetch_sessions db oneYearAgo lastSessionOid =
     (if lastSessionOid < 0 then []
      else rows_read (flt_SessionMilkYield db) (query_sessions db oneYearAgo lastSessionOid))"

text \<open>
  4. SESSIONS (Voluntary), behind \<open>sessions.Any()\<close>. A null \<open>minOid\<close> or \<open>maxOid\<close> is a
  parameter that is not supplied, and the query fails.
\<close>

definition query_voluntary ::
  "LocalStore \<Rightarrow> int \<Rightarrow> int \<Rightarrow> DelproVoluntarySessionsMilkYield list" where
  "query_voluntary db minOid maxOid =
     sort_key vs_OID
       (filter (\<lambda>v. vs_OID v \<ge> minOid \<and> vs_OID v \<le> maxOid) (tbl_VoluntarySessionMilkYield db))"

definition voluntary_throws :: "LocalStore \<Rightarrow> DelproSessionsMilkYield list \<Rightarrow> bool" where
  "voluntary_throws db sessions =
     (sessions \<noteq> [] \<and>
      (nullable_Min (map sm_OID sessions) = None \<or> nullable_Max (map sm_OID sessions) = None \<or>
       read_throws (flt_VoluntarySessionMilkYield db)))"

definition fetch_voluntary ::
  "LocalStore \<Rightarrow> DelproSessionsMilkYield list \<Rightarrow> DelproVoluntarySessionsMilkYield list" where
  "fetch_voluntary db sessions =
     (if sessions \<noteq> [] then
        (case (nullable_Min (map sm_OID sessions), nullable_Max (map sm_OID sessions)) of
           (Some minOid, Some maxOid) \<Rightarrow>
             rows_read (flt_VoluntarySessionMilkYield db) (query_voluntary db minOid maxOid)
         | _ \<Rightarrow> [])
      else [])"

text \<open>5. HISTORY MILK DIVERSION INFO\<close>

definition query_diversions ::
  "LocalStore \<Rightarrow> int \<Rightarrow> DelproHistoryMilkDiversionInfo list" where
  "query_diversions db lastDiversionOid =
     top_by md_OID (filter (\<lambda>d. md_OID d > lastDiversionOid) (tbl_HistoryMilkDiversionInfo db))"

definition fetch_diversions ::
  "LocalStore \<Rightarrow> int \<Rightarrow> DelproHistoryMilkDiversionInfo list" where
  "fetch_diversions db lastDiversionOid =
     rows_read (flt_HistoryMilkDiversionInfo db) (query_diversions db lastDiversionOid)"

subsection \<open>The host, the clock and the connection string\<close>

record Host =
  env_FARM_ID :: "string option"
  env_DelProDb :: "string option"
  os_Windows :: bool
  console_IsInputRedirected :: bool

text \<open>
  \<open>oneYearAgo\<close> is the date \<open>DateTime.Now.AddYears(-1)\<close> printed as \<open>yyyy-MM-dd\<close>, read
  as a point of the time axis; \<open>utcNow\<close> is \<open>DateTime.UtcNow\<close>.
\<close>

record Clock =
  oneYearAgo :: int
  utcNow :: int

text \<open>What \<open>new Random()\<close> and \<open>Guid.NewGuid()\<close> give to the mock batch.\<close>

record Randomness =
  rnd_Next :: int
  rnd_columns :: "nat \<Rightarrow> string"

definition IsNullOrEmpty :: "string option \<Rightarrow> bool" where
  "IsNullOrEmpty s = (case s of None \<Rightarrow> True | Some t \<Rightarrow> t = [])"

fun StartsWith :: "string \<Rightarrow> string \<Rightarrow> bool" where
  "StartsWith s [] = True"
| "StartsWith [] (p # ps) = False"
| "StartsWith (c # cs) (p # ps) = (c = p \<and> StartsWith cs ps)"

fun Contains :: "string \<Rightarrow> string \<Rightarrow> bool" where
  "Contains [] p = (p = [])"
| "Contains (c # cs) p = (StartsWith (c # cs) p \<or> Contains cs p)"

definition GetConnectionString :: "Host \<Rightarrow> string \<Rightarrow> string \<times> event list" where
  "GetConnectionString host databaseName =
     (if \<not> IsNullOrEmpty (env_DelProDb host) then (the (env_DelProDb host), [])
      else if os_Windows host then
        (''Server=localhost;Database='' @ databaseName @
           '';Integrated Security=SSPI;TrustServerCertificate=True;'',
         [Log Information
            ''No ConnectionString found. Detecting Windows OS... Using Integrated Security with DB: {DB}''])
      else
        (''Server=localhost;Database='' @ databaseName @
           '';User Id=sa;Password=PecusChain2025!;TrustServerCertificate=True;'', []))"

definition IsMockMode :: "string option \<Rightarrow> bool" where
  "IsMockMode connStr = (IsNullOrEmpty connStr \<or> Contains (the connStr) ''Placeholder'')"

subsection \<open>The mock batch\<close>

text \<open>C\# \<open>long\<close> addition, unchecked.\<close>

definition wrap64 :: "int \<Rightarrow> int" where
  "wrap64 x = (x + 2 ^ 63) mod 2 ^ 64 - 2 ^ 63"

definition empty_payload :: "string \<Rightarrow> IngestPayload" where
  "empty_payload farmId =
     \<lparr>farm_id = farmId, basic_animals = [], lactations_summary = [], sessions_milk_yield = [],
      voluntary_sessions_milk_yield = [], history_milk_diversion_info = [], history_animals = []\<rparr>"

definition FetchMockIncrementalBatch :: "Clock \<Rightarrow> Randomness \<Rightarrow> string \<Rightarrow> int \<Rightarrow> IngestPayload" where
  "FetchMockIncrementalBatch clock rnd farmId lastOid =
     (if rnd_Next rnd < 3 then empty_payload farmId
      else
        (let startOid = wrap64 (lastOid + 1);
             sessions = map (\<lambda>i. \<lparr>sm_OID = Some (wrap64 (startOid + int i)),
                                   sm_BeginTime = Some (utcNow clock - 20 * 60),
                                   sm_other = rnd_columns rnd i\<rparr>) [0..<3]
         in (empty_payload farmId)\<lparr>sessions_milk_yield := sessions\<rparr>))"

subsection \<open>FetchBatchData\<close>

definition fetch_log :: "LocalStore \<Rightarrow> int \<Rightarrow> DelproBasicAnimal list \<Rightarrow> DelproSessionsMilkYield list \<Rightarrow> event list" where
  "fetch_log db lastSessionOid animals sessions =
     (if read_throws (flt_BasicAnimal db) then [Log Warning ''Failed to fetch Basic Animals: {Msg}'']
      else if animals = [] then []
      else if read_throws (flt_HistoryAnimal db)
        then [Log Warning ''Failed to fetch HistoryAnimal (Table might not exist?): {Msg}'']
        else [Log Information ''Fetched {Count} HistoryAnimal records for {AnimCount} new animals.'']) @
     (if read_throws (flt_AnimalLactationSummary db)
        then [Log Warning ''Failed to fetch Lactations: {Msg}''] else []) @
     (if lastSessionOid = 0
        then [Log Information ''Session Sync Strategy: First Run. Starting from {Date} (HasRecentData: {Has})'']
        else []) @
     (if sessions_throws db lastSessionOid
        then [Log Warning ''Failed to fetch Sessions: {Msg}''] else []) @
     (if voluntary_throws db sessions
        then [Log Warning ''Failed to fetch Voluntary Sessions: {Msg}''] else []) @
     (if read_throws (flt_HistoryMilkDiversionInfo db)
        then [Log Warning ''Could not fetch HistoryMilkDiversionInfo: {Msg}''] else [])"

definition fetch_streams ::
  "LocalStore \<Rightarrow> Clock \<Rightarrow> string \<Rightarrow> int \<Rightarrow> int \<Rightarrow> int \<Rightarrow> int \<Rightarrow> IngestPayload" where
  "fetch_streams db clock farmId lastSessionOid lastAnimalOid lastLactationOid
       lastHistoryMilkDiversionOid =
     (let animals = fetch_animals db (oneYearAgo clock) lastAnimalOid;
          historyAnimals = fetch_history db animals;
          lactations = fetch_lactations db (oneYearAgo clock) lastLactationOid;
          sessions = fetch_sessions db (oneYearAgo clock) lastSessionOid;
          voluntary = fetch_voluntary db sessions;
          diversions = fetch_diversions db lastHistoryMilkDiversionOid
      in \<lparr>farm_id = farmId, basic_animals = animals, lactations_summary = lactations,
          sessions_milk_yield = sessions, voluntary_sessions_milk_yield = voluntary,
          history_milk_diversion_info = diversions, history_animals = historyAnimals\<rparr>)"

definition FetchBatchData ::
  "Host \<Rightarrow> LocalStore \<Rightarrow> Clock \<Rightarrow> Randomness \<Rightarrow> string \<Rightarrow> int \<Rightarrow> int \<Rightarrow> int \<Rightarrow> int \<Rightarrow> string
     \<Rightarrow> IngestPayload \<times> event list" where
  "FetchBatchData host db clock rnd farmId lastSessionOid lastAnimalOid lastLactationOid
       lastHistoryMilkDiversionOid databaseName =
     (let (connStr, ev) = GetConnectionString host databaseName in
      if IsMockMode (Some connStr)
        then (FetchMockIncrementalBatch clock rnd farmId lastSessionOid, ev)
      else if \<not> conn_opens db
        then (empty_payload farmId, ev @ [Log Error ''SQL Connection/Critical Error''])
      else
        (let payload = fetch_streams db clock farmId lastSessionOid lastAnimalOid lastLactationOid
                         lastHistoryMilkDiversionOid
         in (payload,
             ev @ fetch_log db lastSessionOid (basic_animals payload) (sessions_milk_yield payload))))"

subsection \<open>GetSyncStatus and UploadData\<close>

text \<open>
  The answer to \<open>GetFromJsonAsync\<close>: a parsed body (null for the JSON literal \<open>null\<close>),
  or an exception.
\<close>

datatype get_outcome = GetReturns "SyncStatusResponse option" | GetThrows

definition zero_status :: SyncStatusResponse where
  "zero_status = \<lparr>last_oid = 0, last_animal_oid = 0, last_lactation_oid = 0,
                  last_history_milk_diversion_oid = 0\<rparr>"

definition GetSyncStatus :: "string \<Rightarrow> get_outcome \<Rightarrow> SyncStatusResponse option \<times> event list" where
  "GetSyncStatus farmId answer =
     (case answer of
        GetReturns r \<Rightarrow> (r, [HttpGetStatus farmId])
      | GetThrows \<Rightarrow>
          (Some zero_status,
           [HttpGetStatus farmId, Log Error ''Failed to contact Cloud API: {Message}'']))"

text \<open>
  The answer to the one \<open>PostAsJsonAsync\<close> call of \<open>UploadData\<close>: a 2xx response, another
  response (whose body is then read, which may throw as well), or an exception.
\<close>

datatype post_outcome = Post2xx | PostNon2xx | PostNon2xxBodyThrows | PostThrows

definition nothing_to_upload :: "IngestPayload \<Rightarrow> bool" where
  "nothing_to_upload payload =
     (length (basic_animals payload) = 0 \<and> length (sessions_milk_yield payload) = 0 \<and>
      length (lactations_summary payload) = 0 \<and> length (history_milk_diversion_info payload) = 0)"

definition UploadData :: "IngestPayload \<Rightarrow> post_outcome \<Rightarrow> event list" where
  "UploadData payload answer =
     (if nothing_to_upload payload then [Log Information ''No new data to upload.'']
      else
        [Log Information
           ''Uploading batch: {Anim} Animals, {Lact} Lactations, {Sess} Sessions, {Div} Diversions...'',
         HttpPostIngest payload] @
        (case answer of
           Post2xx \<Rightarrow> [Log Information ''Upload SUCCESS.'']
         | PostNon2xx \<Rightarrow> [Log Error ''Upload FAILED: {StatusCode} - {Error}'']
         | PostNon2xxBodyThrows \<Rightarrow> [Log Error ''Error during upload.'']
         | PostThrows \<Rightarrow> [Log Error ''Error during upload.'']))"

subsection \<open>The configuration file and registration\<close>

text \<open>
  What \<open>agent_config.json\<close> is when \<open>LoadConfig\<close> looks at it: absent, present but
  failing to read or parse, or holding a parsed value (null for the JSON literal \<open>null\<close>).
\<close>

datatype config_file = NoFile | Unreadable | Holds "AgentConfig option"

definition LoadConfig :: "config_file \<Rightarrow> AgentConfig option \<times> event list" where
  "LoadConfig file =
     (case file of
        NoFile \<Rightarrow> (None, [])
      | Unreadable \<Rightarrow> (None, [FileRead, Log Warning ''Failed to load config file: {Msg}''])
      | Holds c \<Rightarrow> (c, [FileRead]))"

definition LoadFarmIdFromConfig :: "config_file \<Rightarrow> string option \<times> event list" where
  "LoadFarmIdFromConfig file =
     (let (config, ev) = LoadConfig file
      in (case config of None \<Rightarrow> (None, ev) | Some c \<Rightarrow> (FarmId c, ev)))"

text \<open>\<open>new AgentConfig { FarmId = farmId }\<close>, with the defaults of the class.\<close>

definition new_AgentConfig :: "string \<Rightarrow> AgentConfig" where
  "new_AgentConfig farmId =
     \<lparr>FarmId = Some farmId, DatabaseName = Some ''DelPro'', PollingIntervalSeconds = 1800\<rparr>"

definition SaveFarmIdToConfig :: "string \<Rightarrow> bool \<Rightarrow> event list" where
  "SaveFarmIdToConfig farmId write_succeeds =
     (if write_succeeds
      then [FileWrite (new_AgentConfig farmId), Log Information ''Saved Farm ID to {File}'']
      else [Log Error ''Failed to save config file: {Msg}''])"

text \<open>
  The answer to the registration request: a 2xx response with the \<open>farm_id\<close> of its body
  (null when the body or the field is null), another response, or an exception.
\<close>

datatype register_outcome = Reg2xx "string option" | RegNon2xx | RegThrows

definition RegisterFarm :: "string \<Rightarrow> register_outcome \<Rightarrow> string option \<times> event list" where
  "RegisterFarm farmName answer =
     (case answer of
        Reg2xx r \<Rightarrow> (r, [HttpPostRegister farmName])
      | RegNon2xx \<Rightarrow>
          (None, [HttpPostRegister farmName, Log Error ''Registration Failed: {Status} - {Error}''])
      | RegThrows \<Rightarrow>
          (None, [HttpPostRegister farmName, Log Error ''Error calling registration API'']))"

text \<open>\<open>Char.IsWhiteSpace\<close> on the characters below 256.\<close>

definition IsWhiteSpace :: "char \<Rightarrow> bool" where
  "IsWhiteSpace c =
     (let n = (of_char c :: nat) in n = 32 \<or> (9 \<le> n \<and> n \<le> 13) \<or> n = 160 \<or> n = 133)"

definition IsNullOrWhiteSpace :: "string option \<Rightarrow> bool" where
  "IsNullOrWhiteSpace s = (case s of None \<Rightarrow> True | Some t \<Rightarrow> list_all IsWhiteSpace t)"

subsection \<open>ExecuteAsync: resolving FARM\_ID\<close>

record StartupInput =
  su_file :: config_file
  su_line :: "string option"
  su_register :: register_outcome
  su_write_succeeds :: bool

definition setup_prompt :: "event list" where
  "setup_prompt =
     [ConsoleWrite ''================================================='',
      ConsoleWrite ''PECUS CHAIN AGENT - SETUP'',
      ConsoleWrite ''================================================='',
      ConsoleWrite ''Enter your Farm Name to register: '',
      ConsoleReadLine]"

text \<open>
  The part of \<open>ExecuteAsync\<close> before the loop. The result is the resolved identity, or
  \<open>None\<close> when the method returns at one of its two \<open>return\<close> statements.
\<close>

definition resolve_farm_id :: "Host \<Rightarrow> StartupInput \<Rightarrow> string option \<times> event list" where
  "resolve_farm_id host su =
     (let (farmId, ev) =
            (if IsNullOrEmpty (env_FARM_ID host) \<or> env_FARM_ID host = Some ''UNKNOWN_FARM''
             then LoadFarmIdFromConfig (su_file su) else (env_FARM_ID host, []))
      in if \<not> IsNullOrEmpty farmId then (farmId, ev)
         else if console_IsInputRedirected host then
           (None, ev @ [Log Warning ''FARM_ID is not set via Env or Config.'',
                        Log Error ''Cannot register farm in non-interactive mode without FARM_ID env var.''])
         else if IsNullOrWhiteSpace (su_line su) then
           (None, ev @ [Log Warning ''FARM_ID is not set via Env or Config.''] @ setup_prompt @
                  [Log Error ''Startup aborted. No valid FARM_ID.''])
         else
           (let (registered, ev_reg) = RegisterFarm (the (su_line su)) (su_register su)
            in if IsNullOrEmpty registered then
                 (None, ev @ [Log Warning ''FARM_ID is not set via Env or Config.''] @ setup_prompt @
                        ev_reg @ [Log Error ''Startup aborted. No valid FARM_ID.''])
               else
                 (registered,
                  ev @ [Log Warning ''FARM_ID is not set via Env or Config.''] @ setup_prompt @
                  ev_reg @ [ConsoleWrite ''Registration SUCCESS! Your Farm ID is: {farmId}''] @
                  SaveFarmIdToConfig (the registered) (su_write_succeeds su))))"

subsection \<open>ExecuteAsync: the cycle loop\<close>

text \<open>
  The cancellation token, as one pass of the loop sees it: not cancelled; cancelled when the
  loop condition is tested; or cancelled later, before the first wait of the pass is over
  (a cancelled token stays cancelled, so every later wait of the pass is cut as well).
\<close>

datatype cancel = NotRequested | RequestedBeforeCheck | RequestedDuringCycle

record CycleInput =
  ci_cancel :: cancel
  ci_file :: config_file
  ci_status :: get_outcome
  ci_db :: LocalStore
  ci_clock :: Clock
  ci_random :: Randomness
  ci_post :: post_outcome

definition default_PollingIntervalSeconds :: int where
  "default_PollingIntervalSeconds = 1800"

text \<open>
  \<open>Task.Delay\<close> rejects a span below zero or above 4294967294 milliseconds with an
  exception; otherwise it waits, and throws when the token is cancelled. The result is the
  events and whether the call threw.
\<close>

definition TaskDelay_accepts :: "int \<Rightarrow> bool" where
  "TaskDelay_accepts seconds = (0 \<le> seconds * 1000 \<and> seconds * 1000 \<le> 4294967294)"

definition TaskDelay :: "int \<Rightarrow> cancel \<Rightarrow> event list \<times> bool" where
  "TaskDelay seconds c =
     (if \<not> TaskDelay_accepts seconds then ([], True)
      else if c = NotRequested then ([Delay seconds], False)
      else ([DelayCancelled seconds], True))"

record CycleResult =
  cr_events :: "event list"
  cr_payload :: "IngestPayload option"
  cr_threw :: bool

text \<open>
  \<open>config?.PollingIntervalSeconds ?? PollingIntervalSeconds\<close> and
  \<open>config?.DatabaseName ?? "DelPro"\<close>
\<close>

definition currentInterval :: "AgentConfig option \<Rightarrow> int" where
  "currentInterval config =
     (case config of None \<Rightarrow> default_PollingIntervalSeconds
      | Some c \<Rightarrow> PollingIntervalSeconds c)"

definition dbName :: "AgentConfig option \<Rightarrow> string" where
  "dbName config =
     (case config of None \<Rightarrow> ''DelPro''
      | Some c \<Rightarrow> (case DatabaseName c of None \<Rightarrow> ''DelPro'' | Some d \<Rightarrow> d))"

text \<open>
  The body of the \<open>try\<close> block. A null status makes \<open>status.last\_oid\<close> throw; the only
  other statement that can throw is the wait at the end.
\<close>

definition cycle_try :: "Host \<Rightarrow> string \<Rightarrow> CycleInput \<Rightarrow> CycleResult" where
  "cycle_try host farmId ci =
     (let (config, ev_config) = LoadConfig (ci_file ci);
          (status, ev_status) = GetSyncStatus farmId (ci_status ci)
      in case status of
           None \<Rightarrow> \<lparr>cr_events = ev_config @ ev_status, cr_payload = None, cr_threw = True\<rparr>
         | Some st \<Rightarrow>
             (let (payload, ev_fetch) =
                    FetchBatchData host (ci_db ci) (ci_clock ci) (ci_random ci) farmId
                      (last_oid st) (last_animal_oid st) (last_lactation_oid st)
                      (last_history_milk_diversion_oid st) (dbName config);
                  ev_upload = UploadData payload (ci_post ci);
                  (ev_wait, threw) = TaskDelay (currentInterval config) (ci_cancel ci)
              in \<lparr>cr_events =
                     ev_config @ ev_status @
                     [Log Information ''Cloud Watermarks - Sess: {S}, Anim: {A}, Lact: {L}, Div: {D}'',
                      Log Information
                        ''Sync Cycle: Fetching data... (Sess>{S}, Anim>{A}, Lact>{L}, Div>{D})''] @
                     ev_fetch @ ev_upload @
                     [Log Information ''Waiting {Sec} seconds before next sync...''] @ ev_wait,
                   cr_payload = Some payload, cr_threw = threw\<rparr>))"

text \<open>The \<open>catch\<close> block of the loop.\<close>

definition cycle_catch :: "cancel \<Rightarrow> event list \<times> bool" where
  "cycle_catch c =
     (let (ev_wait, threw) = TaskDelay 60 c
      in (Log Error ''Error in Sync Cycle'' # ev_wait, threw))"

text \<open>
  How a run ends: on the inputs given so far the loop is still going; the loop condition
  became false; an exception left the method (the wait inside \<open>catch\<close> was cancelled); or
  the method returned before the loop.
\<close>

datatype exit = StillRunning | LoopEnded | TaskCancelled | StartupAborted

fun run_cycles :: "Host \<Rightarrow> string \<Rightarrow> CycleInput list \<Rightarrow> event list \<times> exit" where
  "run_cycles host farmId [] = ([], StillRunning)"
| "run_cycles host farmId (ci # cis) =
     (if ci_cancel ci = RequestedBeforeCheck then ([], LoopEnded)
      else
        (let r = cycle_try host farmId ci in
         if \<not> cr_threw r then
           (let (ev, x) = run_cycles host farmId cis in (cr_events r @ ev, x))
         else
           (let (ev_catch, threw) = cycle_catch (ci_cancel ci) in
            if threw then (cr_events r @ ev_catch, TaskCancelled)
            else (let (ev, x) = run_cycles host farmId cis
                  in (cr_events r @ ev_catch @ ev, x)))))"

definition ExecuteAsync :: "Host \<Rightarrow> StartupInput \<Rightarrow> CycleInput list \<Rightarrow> event list \<times> exit" where
  "ExecuteAsync host su cis =
     (case resolve_farm_id host su of
        (None, ev) \<Rightarrow> (Log Information ''API Target: {ApiUrl}'' # ev, StartupAborted)
      | (Some farmId, ev) \<Rightarrow>
          (let (ev_loop, x) = run_cycles host farmId cis
           in (Log Information ''API Target: {ApiUrl}'' # ev @
               [Log Information ''Pecus Chain Agent Service Started. Farm ID: {FarmId}''] @ ev_loop,
               x)))"

subsection \<open>Reading a trace\<close>

fun is_log :: "event \<Rightarrow> bool" where
  "is_log (Log l m) = True"
| "is_log e = False"

text \<open>The payloads posted to the ingest endpoint, in order.\<close>

fun ingest_posts :: "event list \<Rightarrow> IngestPayload list" where
  "ingest_posts [] = []"
| "ingest_posts (HttpPostIngest p # evs) = p # ingest_posts evs"
| "ingest_posts (e # evs) = ingest_posts evs"

text \<open>The waits that ran to their end, in seconds.\<close>

fun waits :: "event list \<Rightarrow> int list" where
  "waits [] = []"
| "waits (Delay n # evs) = n # waits evs"
| "waits (e # evs) = waits evs"

fun file_writes :: "event list \<Rightarrow> AgentConfig list" where
  "file_writes [] = []"
| "file_writes (FileWrite c # evs) = c # file_writes evs"
| "file_writes (e # evs) = file_writes evs"

fun file_reads :: "event list \<Rightarrow> nat" where
  "file_reads [] = 0"
| "file_reads (FileRead # evs) = Suc (file_reads evs)"
| "file_reads (e # evs) = file_reads evs"

fun registrations :: "event list \<Rightarrow> string list" where
  "registrations [] = []"
| "registrations (HttpPostRegister n # evs) = n # registrations evs"
| "registrations (e # evs) = registrations evs"

definition all_batches_empty :: "IngestPayload \<Rightarrow> bool" where
  "all_batches_empty p =
     (basic_animals p = [] \<and> lactations_summary p = [] \<and> sessions_milk_yield p = [] \<and>
      voluntary_sessions_milk_yield p = [] \<and> history_milk_diversion_info p = [] \<and>
      history_animals p = [])"

text \<open>The call of \<open>FetchBatchData\<close> that a cycle makes once it holds the status \<open>st\<close>.\<close>

definition cycle_fetch ::
  "Host \<Rightarrow> string \<Rightarrow> CycleInput \<Rightarrow> SyncStatusResponse \<Rightarrow> IngestPayload \<times> event list" where
  "cycle_fetch host farmId ci st =
     FetchBatchData host (ci_db ci) (ci_clock ci) (ci_random ci) farmId
       (last_oid st) (last_animal_oid st) (last_lactation_oid st)
       (last_history_milk_diversion_oid st) (dbName (fst (LoadConfig (ci_file ci))))"

text \<open>
  The agent is not in mock mode and its connection opens: the payload comes from the
  queries.
\<close>

definition reads_store :: "Host \<Rightarrow> LocalStore \<Rightarrow> string \<Rightarrow> bool" where
  "reads_store host db databaseName =
     (\<not> IsMockMode (Some (fst (GetConnectionString host databaseName))) \<and> conn_opens db)"

subsection \<open>Example inputs\<close>

definition host0 :: Host where
  "host0 = \<lparr>env_FARM_ID = Some ''farm-1'', env_DelProDb = Some ''Server=db'',
            os_Windows = False, console_IsInputRedirected = True\<rparr>"

definition clock0 :: Clock where
  "clock0 = \<lparr>oneYearAgo = 1000, utcNow = 2000\<rparr>"

definition rnd0 :: Randomness where
  "rnd0 = \<lparr>rnd_Next = 5, rnd_columns = (\<lambda>i. [])\<rparr>"

definition db0 :: LocalStore where
  "db0 =
     \<lparr>conn_opens = True,
      tbl_BasicAnimal =
        [\<lparr>ba_OID = 7, ba_ExitDate = None, ba_other = ''a7''\<rparr>,
         \<lparr>ba_OID = 5, ba_ExitDate = Some 100, ba_other = ''a5''\<rparr>,
         \<lparr>ba_OID = 9, ba_ExitDate = Some 1200, ba_other = ''a9''\<rparr>],
      tbl_HistoryAnimal =
        [\<lparr>ha_ReferenceID = Some 7, ha_other = ''h7''\<rparr>,
         \<lparr>ha_ReferenceID = Some 5, ha_other = ''h5''\<rparr>,
         \<lparr>ha_ReferenceID = None, ha_other = ''h''\<rparr>],
      tbl_AnimalLactationSummary =
        [\<lparr>ls_OID = 4, ls_Animal = Some 5, ls_other = ''l4''\<rparr>,
         \<lparr>ls_OID = 3, ls_Animal = Some 7, ls_other = ''l3''\<rparr>],
      tbl_SessionMilkYield =
        [\<lparr>sm_OID = Some 12, sm_BeginTime = Some 1500, sm_other = ''s12''\<rparr>,
         \<lparr>sm_OID = Some 10, sm_BeginTime = Some 1400, sm_other = ''s10''\<rparr>],
      tbl_VoluntarySessionMilkYield =
        [\<lparr>vs_OID = 11, vs_other = ''v11''\<rparr>,
         \<lparr>vs_OID = 10, vs_other = ''v10''\<rparr>,
         \<lparr>vs_OID = 20, vs_other = ''v20''\<rparr>],
      tbl_HistoryMilkDiversionInfo = [\<lparr>md_OID = 2, md_other = ''d2''\<rparr>],
      flt_BasicAnimal = None, flt_HistoryAnimal = None, flt_AnimalLactationSummary = None,
      flt_SessionCheck = False, flt_SessionMilkYield = None,
      flt_VoluntarySessionMilkYield = None, flt_HistoryMilkDiversionInfo = None\<rparr>"

definition status1 :: SyncStatusResponse where
  "status1 = \<lparr>last_oid = 1, last_animal_oid = 1, last_lactation_oid = 1,
              last_history_milk_diversion_oid = 1\<rparr>"

definition ci0 :: CycleInput where
  "ci0 = \<lparr>ci_cancel = NotRequested, ci_file = NoFile, ci_status = GetReturns (Some status1),
          ci_db = db0, ci_clock = clock0, ci_random = rnd0, ci_post = PostThrows\<rparr>"

definition payload1 :: IngestPayload where
  "payload1 =
     (empty_payload ''farm-1'')
       \<lparr>basic_animals := [\<lparr>ba_OID = 7, ba_ExitDate = None, ba_other = ''a7''\<rparr>]\<rparr>"

text \<open>The three sources of the identity, as \<open>ExecuteAsync\<close> tests them.\<close>

definition env_yields :: "Host \<Rightarrow> bool" where
  "env_yields host =
     (\<not> IsNullOrEmpty (env_FARM_ID host) \<and> env_FARM_ID host \<noteq> Some ''UNKNOWN_FARM'')"

definition file_yields :: "StartupInput \<Rightarrow> bool" where
  "file_yields su = (\<not> IsNullOrEmpty (fst (LoadFarmIdFromConfig (su_file su))))"

definition registration_yields :: "StartupInput \<Rightarrow> bool" where
  "registration_yields su =
     (\<not> IsNullOrWhiteSpace (su_line su) \<and>
      \<not> IsNullOrEmpty (fst (RegisterFarm (the (su_line su)) (su_register su))))"

definition su0 :: StartupInput where
  "su0 = \<lparr>su_file = NoFile, su_line = Some ''Green Farm'', su_register = Reg2xx (Some ''farm-9''),
          su_write_succeeds = True\<rparr>"


text \<open>
  The number of rows of a table with identifier above a watermark, whatever else the rows
  hold: the N of the batch bound as the specification words it.
\<close>

definition rows_above :: "('a \<Rightarrow> int) \<Rightarrow> int \<Rightarrow> 'a list \<Rightarrow> nat" where
  "rows_above oid w rows = length (filter (\<lambda>r. oid r > w) rows)"

text \<open>
  The voluntary-session rows whose OID is the OID of a row of the session batch: the
  dependent batch as the specification words it.
\<close>

definition voluntary_by_membership ::
  "DelproVoluntarySessionsMilkYield list \<Rightarrow> DelproSessionsMilkYield list
     \<Rightarrow> DelproVoluntarySessionsMilkYield list" where
  "voluntary_by_membership rows sessions =
     filter (\<lambda>v. Some (vs_OID v) \<in> set (map sm_OID sessions)) rows"

text \<open>The six lists of a payload, and the read fault that belongs to each.\<close>

datatype stream = Animals | HistoryAnimals | Lactations | Sessions | Voluntary | Diversions

fun read_fault :: "stream \<Rightarrow> LocalStore \<Rightarrow> nat option" where
  "read_fault Animals db = flt_BasicAnimal db"
| "read_fault HistoryAnimals db = flt_HistoryAnimal db"
| "read_fault Lactations db = flt_AnimalLactationSummary db"
| "read_fault Sessions db = flt_SessionMilkYield db"
| "read_fault Voluntary db = flt_VoluntarySessionMilkYield db"
| "read_fault Diversions db = flt_HistoryMilkDiversionInfo db"

fun set_fault :: "stream \<Rightarrow> nat option \<Rightarrow> LocalStore \<Rightarrow> LocalStore" where
  "set_fault Animals f db = db\<lparr>flt_BasicAnimal := f\<rparr>"
| "set_fault HistoryAnimals f db = db\<lparr>flt_HistoryAnimal := f\<rparr>"
| "set_fault Lactations f db = db\<lparr>flt_AnimalLactationSummary := f\<rparr>"
| "set_fault Sessions f db = db\<lparr>flt_SessionMilkYield := f\<rparr>"
| "set_fault Voluntary f db = db\<lparr>flt_VoluntarySessionMilkYield := f\<rparr>"
| "set_fault Diversions f db = db\<lparr>flt_HistoryMilkDiversionInfo := f\<rparr>"

fun batch_size :: "stream \<Rightarrow> IngestPayload \<Rightarrow> nat" where
  "batch_size Animals p = length (basic_animals p)"
| "batch_size HistoryAnimals p = length (history_animals p)"
| "batch_size Lactations p = length (lactations_summary p)"
| "batch_size Sessions p = length (sessions_milk_yield p)"
| "batch_size Voluntary p = length (voluntary_sessions_milk_yield p)"
| "batch_size Diversions p = length (history_milk_diversion_info p)"

fun blank :: "stream \<Rightarrow> IngestPayload \<Rightarrow> IngestPayload" where
  "blank Animals p = p\<lparr>basic_animals := []\<rparr>"
| "blank HistoryAnimals p = p\<lparr>history_animals := []\<rparr>"
| "blank Lactations p = p\<lparr>lactations_summary := []\<rparr>"
| "blank Sessions p = p\<lparr>sessions_milk_yield := []\<rparr>"
| "blank Voluntary p = p\<lparr>voluntary_sessions_milk_yield := []\<rparr>"
| "blank Diversions p = p\<lparr>history_milk_diversion_info := []\<rparr>"

text \<open>
  The lists that the read of a stream can change: its own and, for a parent stream, the
  list selected from its batch.
\<close>

fun reach :: "stream \<Rightarrow> stream list" where
  "reach Animals = [Animals, HistoryAnimals]"
| "reach Sessions = [Sessions, Voluntary]"
| "reach s = [s]"

definition outside :: "stream \<Rightarrow> IngestPayload \<Rightarrow> IngestPayload" where
  "outside s p = fold blank (reach s) p"

definition starts :: "'a list \<Rightarrow> 'a list \<Rightarrow> bool" where
  "starts xs ys = (take (length xs) ys = xs)"

definition config2 :: AgentConfig where
  "config2 = \<lparr>FarmId = Some ''farm-2'', DatabaseName = Some ''DelPro'',
              PollingIntervalSeconds = 1800\<rparr>"


section \<open>Properties\<close>

subsection \<open>Traces\<close>

lemma ingest_posts_append: "ingest_posts (xs @ ys) = ingest_posts xs @ ingest_posts ys"
  by (induction xs rule: ingest_posts.induct) simp_all

lemma ingest_posts_logs: "list_all is_log evs \<Longrightarrow> ingest_posts evs = []"
  by (induction evs rule: ingest_posts.induct) simp_all

lemma GetConnectionString_logs: "list_all is_log (snd (GetConnectionString host dn))"
  by (simp add: GetConnectionString_def)

lemma fetch_log_logs: "list_all is_log (fetch_log db w animals sessions)"
  by (simp add: fetch_log_def)

lemma FetchBatchData_logs:
  "list_all is_log (snd (FetchBatchData host db clock rnd farmId ws wa wl wd dn))"
proof (cases "GetConnectionString host dn")
  case (Pair connStr ev)
  with GetConnectionString_logs [of host dn] have "list_all is_log ev" by simp
  with Pair show ?thesis
    by (simp add: FetchBatchData_def fetch_log_logs Let_def)
qed

lemma fetch_history_parent: "fetch_history db [] = []"
  by (simp add: fetch_history_def)

lemma fetch_voluntary_parent: "fetch_voluntary db [] = []"
  by (simp add: fetch_voluntary_def)

lemma fetch_streams_dependency:
  "(basic_animals (fetch_streams db clock farmId ws wa wl wd) = [] \<longrightarrow>
      history_animals (fetch_streams db clock farmId ws wa wl wd) = []) \<and>
   (sessions_milk_yield (fetch_streams db clock farmId ws wa wl wd) = [] \<longrightarrow>
      voluntary_sessions_milk_yield (fetch_streams db clock farmId ws wa wl wd) = [])"
  by (simp add: fetch_streams_def Let_def fetch_history_parent fetch_voluntary_parent)

lemma mock_dependency:
  "history_animals (FetchMockIncrementalBatch clock rnd farmId w) = [] \<and>
   voluntary_sessions_milk_yield (FetchMockIncrementalBatch clock rnd farmId w) = []"
  by (simp add: FetchMockIncrementalBatch_def empty_payload_def Let_def)

lemma FetchBatchData_dependency:
  "(basic_animals (fst (FetchBatchData host db clock rnd farmId ws wa wl wd dn)) = [] \<longrightarrow>
      history_animals (fst (FetchBatchData host db clock rnd farmId ws wa wl wd dn)) = []) \<and>
   (sessions_milk_yield (fst (FetchBatchData host db clock rnd farmId ws wa wl wd dn)) = [] \<longrightarrow>
      voluntary_sessions_milk_yield (fst (FetchBatchData host db clock rnd farmId ws wa wl wd dn)) = [])"
  using fetch_streams_dependency [of db clock farmId ws wa wl wd] mock_dependency [of clock rnd farmId ws]
  by (simp add: FetchBatchData_def Let_def empty_payload_def split: prod.splits)

lemma nothing_to_upload_all_empty:
  "(basic_animals p = [] \<longrightarrow> history_animals p = []) \<Longrightarrow>
   (sessions_milk_yield p = [] \<longrightarrow> voluntary_sessions_milk_yield p = []) \<Longrightarrow>
   nothing_to_upload p = all_batches_empty p"
  by (auto simp: nothing_to_upload_def all_batches_empty_def)

lemma ingest_posts_UploadData:
  "ingest_posts (UploadData p a) = (if nothing_to_upload p then [] else [p])"
  by (cases a) (simp_all add: UploadData_def)


lemma waits_logs: "list_all is_log evs \<Longrightarrow> waits evs = []"
  by (induction evs rule: waits.induct) simp_all


lemma file_writes_logs: "list_all is_log evs \<Longrightarrow> file_writes evs = []"
  by (induction evs rule: file_writes.induct) simp_all

lemma registrations_append: "registrations (xs @ ys) = registrations xs @ registrations ys"
  by (induction xs rule: registrations.induct) simp_all

lemma cycle_try_null:
  "fst (GetSyncStatus farmId (ci_status ci)) = None \<Longrightarrow>
   cycle_try host farmId ci =
     \<lparr>cr_events = snd (LoadConfig (ci_file ci)) @ snd (GetSyncStatus farmId (ci_status ci)),
      cr_payload = None, cr_threw = True\<rparr>"
  by (simp add: cycle_try_def case_prod_beta)

lemma cycle_try_status:
  "fst (GetSyncStatus farmId (ci_status ci)) = Some st \<Longrightarrow>
   cycle_try host farmId ci =
     \<lparr>cr_events =
        snd (LoadConfig (ci_file ci)) @ snd (GetSyncStatus farmId (ci_status ci)) @
        [Log Information ''Cloud Watermarks - Sess: {S}, Anim: {A}, Lact: {L}, Div: {D}'',
         Log Information ''Sync Cycle: Fetching data... (Sess>{S}, Anim>{A}, Lact>{L}, Div>{D})''] @
        snd (cycle_fetch host farmId ci st) @
        UploadData (fst (cycle_fetch host farmId ci st)) (ci_post ci) @
        [Log Information ''Waiting {Sec} seconds before next sync...''] @
        fst (TaskDelay (currentInterval (fst (LoadConfig (ci_file ci)))) (ci_cancel ci)),
      cr_payload = Some (fst (cycle_fetch host farmId ci st)),
      cr_threw = snd (TaskDelay (currentInterval (fst (LoadConfig (ci_file ci)))) (ci_cancel ci))\<rparr>"
  by (simp add: cycle_try_def cycle_fetch_def case_prod_beta Let_def)

lemma LoadConfig_quiet:
  "ingest_posts (snd (LoadConfig f)) = [] \<and> waits (snd (LoadConfig f)) = [] \<and>
   file_writes (snd (LoadConfig f)) = []"
  by (cases f) (simp_all add: LoadConfig_def)

lemma GetSyncStatus_quiet:
  "ingest_posts (snd (GetSyncStatus farmId a)) = [] \<and> waits (snd (GetSyncStatus farmId a)) = [] \<and>
   file_writes (snd (GetSyncStatus farmId a)) = []"
  by (cases a) (simp_all add: GetSyncStatus_def)

lemma cycle_fetch_quiet:
  "ingest_posts (snd (cycle_fetch host farmId ci st)) = [] \<and>
   waits (snd (cycle_fetch host farmId ci st)) = [] \<and>
   file_writes (snd (cycle_fetch host farmId ci st)) = []"
  unfolding cycle_fetch_def
  by (simp add: FetchBatchData_logs ingest_posts_logs waits_logs file_writes_logs)


lemma TaskDelay_quiet:
  "ingest_posts (fst (TaskDelay n c)) = [] \<and> file_writes (fst (TaskDelay n c)) = []"
  by (simp add: TaskDelay_def)


lemma cycle_fetch_dependency:
  "nothing_to_upload (fst (cycle_fetch host farmId ci st)) =
   all_batches_empty (fst (cycle_fetch host farmId ci st))"
  unfolding cycle_fetch_def
  by (rule nothing_to_upload_all_empty) (simp_all add: FetchBatchData_dependency)

lemma cycle_try_posts:
  "ingest_posts (cr_events (cycle_try host farmId ci)) =
     (case cr_payload (cycle_try host farmId ci) of
        None \<Rightarrow> []
      | Some p \<Rightarrow> if all_batches_empty p then [] else [p])"
proof (cases "fst (GetSyncStatus farmId (ci_status ci))")
  case None
  then show ?thesis
    by (simp add: cycle_try_null ingest_posts_append LoadConfig_quiet GetSyncStatus_quiet)
next
  case (Some st)
  then show ?thesis
    by (simp add: cycle_try_status ingest_posts_append LoadConfig_quiet GetSyncStatus_quiet
        cycle_fetch_quiet TaskDelay_quiet ingest_posts_UploadData cycle_fetch_dependency)
qed



lemma cycle_catch_NotRequested:
  "cycle_catch NotRequested = ([Log Error ''Error in Sync Cycle'', Delay 60], False)"
  by (simp add: cycle_catch_def TaskDelay_def TaskDelay_accepts_def)



lemma run_cycles_alive:
  "\<forall>c \<in> set cis. ci_cancel c = NotRequested \<Longrightarrow> snd (run_cycles host farmId cis) = StillRunning"
proof (induction cis)
  case Nil
  show ?case by simp
next
  case (Cons ci cis)
  then show ?case
    by (simp add: Let_def case_prod_beta cycle_catch_NotRequested)
qed


lemma run_cycles_exit_cancel:
  "snd (run_cycles host farmId cis) \<noteq> StillRunning \<Longrightarrow> \<exists>c \<in> set cis. ci_cancel c \<noteq> NotRequested"
  using run_cycles_alive [of cis host farmId] by blast


lemma cycle_try_no_new_data:
  assumes "cr_payload (cycle_try host farmId ci) = Some p" and "all_batches_empty p"
  shows "Log Information ''No new data to upload.'' \<in> set (cr_events (cycle_try host farmId ci))"
proof (cases "fst (GetSyncStatus farmId (ci_status ci))")
  case None
  with assms show ?thesis by (simp add: cycle_try_null)
next
  case (Some st)
  with assms have "all_batches_empty (fst (cycle_fetch host farmId ci st))"
    by (simp add: cycle_try_status)
  then have "nothing_to_upload (fst (cycle_fetch host farmId ci st))"
    by (simp add: cycle_fetch_dependency)
  with Some show ?thesis
    by (simp add: cycle_try_status UploadData_def)
qed

lemma FetchBatchData_reads:
  "reads_store host db dn \<Longrightarrow>
   fst (FetchBatchData host db clock rnd farmId ws wa wl wd dn) =
     fetch_streams db clock farmId ws wa wl wd"
  by (simp add: reads_store_def FetchBatchData_def case_prod_beta Let_def)



subsection \<open>The example inputs, evaluated\<close>

lemma host0_reads_store: "reads_store host0 db0 dn"
  by (simp add: reads_store_def IsMockMode_def GetConnectionString_def host0_def
      IsNullOrEmpty_def db0_def)

lemma payload0:
  "fst (FetchBatchData host0 db0 clock0 rnd0 ''farm-1'' 1 1 1 1 ''DelPro'') =
     \<lparr>farm_id = ''farm-1'',
      basic_animals =
        [\<lparr>ba_OID = 7, ba_ExitDate = None, ba_other = ''a7''\<rparr>,
         \<lparr>ba_OID = 9, ba_ExitDate = Some 1200, ba_other = ''a9''\<rparr>],
      lactations_summary = [\<lparr>ls_OID = 3, ls_Animal = Some 7, ls_other = ''l3''\<rparr>],
      sessions_milk_yield =
        [\<lparr>sm_OID = Some 10, sm_BeginTime = Some 1400, sm_other = ''s10''\<rparr>,
         \<lparr>sm_OID = Some 12, sm_BeginTime = Some 1500, sm_other = ''s12''\<rparr>],
      voluntary_sessions_milk_yield =
        [\<lparr>vs_OID = 10, vs_other = ''v10''\<rparr>, \<lparr>vs_OID = 11, vs_other = ''v11''\<rparr>],
      history_milk_diversion_info = [\<lparr>md_OID = 2, md_other = ''d2''\<rparr>],
      history_animals = [\<lparr>ha_ReferenceID = Some 7, ha_other = ''h7''\<rparr>]\<rparr>"
  by (simp add: FetchBatchData_def IsMockMode_def GetConnectionString_def host0_def
      IsNullOrEmpty_def db0_def clock0_def fetch_streams_def fetch_animals_def query_animals_def
      fetch_history_def query_history_def fetch_lactations_def query_lactations_def
      fetch_sessions_def query_sessions_def fetch_voluntary_def query_voluntary_def
      fetch_diversions_def query_diversions_def top_by_def batch_limit_def rows_read_def
      read_throws_def exit_recent_def gt_col_def in_col_def nullable_Min_def nullable_Max_def
      Let_def)

lemma cycle_fetch0:
  "cycle_fetch host0 ''farm-1'' ci0 status1 =
     FetchBatchData host0 db0 clock0 rnd0 ''farm-1'' 1 1 1 1 ''DelPro''"
  by (simp add: cycle_fetch_def ci0_def status1_def LoadConfig_def dbName_def)

lemma cycle_try0_payload:
  "cr_payload (cycle_try host0 ''farm-1'' ci0) =
     Some (fst (FetchBatchData host0 db0 clock0 rnd0 ''farm-1'' 1 1 1 1 ''DelPro''))"
proof -
  have "fst (GetSyncStatus ''farm-1'' (ci_status ci0)) = Some status1"
    by (simp add: ci0_def GetSyncStatus_def)
  then show ?thesis
    by (simp add: cycle_try_status cycle_fetch0)
qed

section \<open>The claims\<close>

text \<open>
  C10. Every payload that \<open>FetchBatchData\<close> produces keeps the dependency invariant: a
  non-empty voluntary-sessions list comes with a non-empty sessions list, and a non-empty
  history-animals list with a non-empty basic-animals list. So the test at the head of
  \<open>UploadData\<close>, which looks at four of the six lists, never skips a payload that holds a
  record in any list: such a payload is posted, whole.
\<close>

theorem FetchBatchData_dependency_invariant:
  "(voluntary_sessions_milk_yield (fst (FetchBatchData host db clock rnd farmId ws wa wl wd dn)) \<noteq> [] \<longrightarrow>
      sessions_milk_yield (fst (FetchBatchData host db clock rnd farmId ws wa wl wd dn)) \<noteq> []) \<and>
   (history_animals (fst (FetchBatchData host db clock rnd farmId ws wa wl wd dn)) \<noteq> [] \<longrightarrow>
      basic_animals (fst (FetchBatchData host db clock rnd farmId ws wa wl wd dn)) \<noteq> []) \<and>
   (\<not> all_batches_empty (fst (FetchBatchData host db clock rnd farmId ws wa wl wd dn)) \<longrightarrow>
      ingest_posts (UploadData (fst (FetchBatchData host db clock rnd farmId ws wa wl wd dn)) answer) =
        [fst (FetchBatchData host db clock rnd farmId ws wa wl wd dn)])"
proof -
  let ?p = "fst (FetchBatchData host db clock rnd farmId ws wa wl wd dn)"
  have dep: "(basic_animals ?p = [] \<longrightarrow> history_animals ?p = []) \<and>
             (sessions_milk_yield ?p = [] \<longrightarrow> voluntary_sessions_milk_yield ?p = [])"
    by (rule FetchBatchData_dependency)
  then have "nothing_to_upload ?p = all_batches_empty ?p"
    by (simp add: nothing_to_upload_all_empty)
  with dep show ?thesis
    by (auto simp: ingest_posts_UploadData)
qed

theorem FetchBatchData_dependency_invariant_witness:
  "voluntary_sessions_milk_yield (fst (FetchBatchData host0 db0 clock0 rnd0 ''farm-1'' 1 1 1 1 ''DelPro'')) \<noteq> [] \<and>
   sessions_milk_yield (fst (FetchBatchData host0 db0 clock0 rnd0 ''farm-1'' 1 1 1 1 ''DelPro'')) \<noteq> [] \<and>
   history_animals (fst (FetchBatchData host0 db0 clock0 rnd0 ''farm-1'' 1 1 1 1 ''DelPro'')) \<noteq> [] \<and>
   basic_animals (fst (FetchBatchData host0 db0 clock0 rnd0 ''farm-1'' 1 1 1 1 ''DelPro'')) \<noteq> [] \<and>
   ingest_posts (UploadData (fst (FetchBatchData host0 db0 clock0 rnd0 ''farm-1'' 1 1 1 1 ''DelPro'')) Post2xx) =
     [fst (FetchBatchData host0 db0 clock0 rnd0 ''farm-1'' 1 1 1 1 ''DelPro'')]"
proof -
  let ?p = "fst (FetchBatchData host0 db0 clock0 rnd0 ''farm-1'' 1 1 1 1 ''DelPro'')"
  have v: "voluntary_sessions_milk_yield ?p \<noteq> []" and h: "history_animals ?p \<noteq> []"
    by (simp_all add: payload0)
  then have "\<not> all_batches_empty ?p"
    by (simp add: all_batches_empty_def)
  with v h show ?thesis
    using FetchBatchData_dependency_invariant
      [of host0 db0 clock0 rnd0 "''farm-1''" 1 1 1 1 "''DelPro''" Post2xx]
    by blast
qed

text \<open>
  C5. When the status request throws, \<open>GetSyncStatus\<close> returns the zero watermark, with
  all four identifiers 0, as a value; the cycle then goes on to \<open>FetchBatchData\<close> with
  watermark 0 for every stream.
\<close>

theorem GetSyncStatus_fail_open:
  "fst (GetSyncStatus farmId GetThrows) = Some zero_status \<and>
   last_oid zero_status = 0 \<and> last_animal_oid zero_status = 0 \<and>
   last_lactation_oid zero_status = 0 \<and> last_history_milk_diversion_oid zero_status = 0 \<and>
   (ci_status ci = GetThrows \<longrightarrow>
      cr_payload (cycle_try host farmId ci) =
        Some (fst (FetchBatchData host (ci_db ci) (ci_clock ci) (ci_random ci) farmId 0 0 0 0
                     (dbName (fst (LoadConfig (ci_file ci)))))))"
proof -
  have "fst (GetSyncStatus farmId GetThrows) = Some zero_status"
    by (simp add: GetSyncStatus_def)
  moreover have "cr_payload (cycle_try host farmId ci) =
        Some (fst (FetchBatchData host (ci_db ci) (ci_clock ci) (ci_random ci) farmId 0 0 0 0
                     (dbName (fst (LoadConfig (ci_file ci))))))"
    if "ci_status ci = GetThrows"
  proof -
    from that have "fst (GetSyncStatus farmId (ci_status ci)) = Some zero_status"
      by (simp add: GetSyncStatus_def)
    then show ?thesis
      by (simp add: cycle_try_status cycle_fetch_def zero_status_def)
  qed
  ultimately show ?thesis
    by (simp add: zero_status_def)
qed

theorem GetSyncStatus_fail_open_witness:
  "ci_status (ci0\<lparr>ci_status := GetThrows\<rparr>) = GetThrows \<and>
   cr_payload (cycle_try host0 ''farm-1'' (ci0\<lparr>ci_status := GetThrows\<rparr>)) =
     Some (fst (FetchBatchData host0 db0 clock0 rnd0 ''farm-1'' 0 0 0 0 ''DelPro''))"
proof -
  have h: "ci_status (ci0\<lparr>ci_status := GetThrows\<rparr>) = GetThrows"
    by simp
  show ?thesis
    using h GetSyncStatus_fail_open [of "''farm-1''" "ci0\<lparr>ci_status := GetThrows\<rparr>" host0]
    by (simp add: ci0_def LoadConfig_def dbName_def)
qed

text \<open>
  C4. In a cycle whose extraction leaves every list empty, no request goes to the ingest
  endpoint and the log says that there is no new data; in a cycle whose extraction leaves
  a record in any list, exactly one request goes to the ingest endpoint, and it carries
  the whole payload. (A cycle with no payload is one that failed before extraction.)
\<close>

theorem cycle_upload_short_circuit:
  "(case cr_payload (cycle_try host farmId ci) of
      None \<Rightarrow> ingest_posts (cr_events (cycle_try host farmId ci)) = []
    | Some p \<Rightarrow>
        (all_batches_empty p \<longrightarrow>
           ingest_posts (cr_events (cycle_try host farmId ci)) = [] \<and>
           Log Information ''No new data to upload.'' \<in> set (cr_events (cycle_try host farmId ci))) \<and>
        (\<not> all_batches_empty p \<longrightarrow>
           ingest_posts (cr_events (cycle_try host farmId ci)) = [p]))"
proof (cases "cr_payload (cycle_try host farmId ci)")
  case None
  then show ?thesis
    by (simp add: cycle_try_posts)
next
  case (Some p)
  then show ?thesis
    using cycle_try_no_new_data [of host farmId ci p]
    by (simp add: cycle_try_posts)
qed

theorem cycle_upload_short_circuit_witness:
  "\<not> all_batches_empty (fst (FetchBatchData host0 db0 clock0 rnd0 ''farm-1'' 1 1 1 1 ''DelPro'')) \<and>
   ingest_posts (cr_events (cycle_try host0 ''farm-1'' ci0)) =
     [fst (FetchBatchData host0 db0 clock0 rnd0 ''farm-1'' 1 1 1 1 ''DelPro'')]"
proof -
  have h: "\<not> all_batches_empty (fst (FetchBatchData host0 db0 clock0 rnd0 ''farm-1'' 1 1 1 1 ''DelPro''))"
    by (simp add: payload0 all_batches_empty_def)
  show ?thesis
    using h cycle_upload_short_circuit [of host0 "''farm-1''" ci0]
    by (simp add: cycle_try0_payload)
qed




text \<open>
  C1. \<open>UploadData\<close> at a failing upload: one request, then the error log line; no wait
  and no second request follow.
\<close>

theorem UploadData_failed_upload:
  "UploadData payload1 PostThrows =
     [Log Information
        ''Uploading batch: {Anim} Animals, {Lact} Lactations, {Sess} Sessions, {Div} Diversions...'',
      HttpPostIngest payload1, Log Error ''Error during upload.''] \<and>
   UploadData payload1 PostNon2xx =
     [Log Information
        ''Uploading batch: {Anim} Animals, {Lact} Lactations, {Sess} Sessions, {Div} Diversions...'',
      HttpPostIngest payload1, Log Error ''Upload FAILED: {StatusCode} - {Error}''] \<and>
   ingest_posts (UploadData payload1 PostThrows) = [payload1] \<and>
   waits (UploadData payload1 PostThrows) = []"
  by (simp add: UploadData_def nothing_to_upload_def payload1_def empty_payload_def)


lemma run_cycles_not_aborted: "snd (run_cycles host farmId cis) \<noteq> StartupAborted"
proof (induction cis)
  case Nil
  show ?case by simp
next
  case (Cons ci cis)
  then show ?case
    by (simp add: Let_def case_prod_beta)
qed

lemma resolve_env:
  "env_yields host \<Longrightarrow> resolve_farm_id host su = (env_FARM_ID host, [])"
  by (simp add: resolve_farm_id_def env_yields_def)

lemma LoadFarmIdFromConfig_registrations:
  "registrations (snd (LoadFarmIdFromConfig f)) = []"
  by (cases f) (simp_all add: LoadFarmIdFromConfig_def LoadConfig_def split: option.splits)

lemma resolve_file:
  "\<not> env_yields host \<Longrightarrow> file_yields su \<Longrightarrow>
   resolve_farm_id host su = LoadFarmIdFromConfig (su_file su)"
  by (auto simp: resolve_farm_id_def env_yields_def file_yields_def case_prod_beta)

lemma RegisterFarm_registrations:
  "registrations (snd (RegisterFarm n a)) = [n]"
  by (cases a) (simp_all add: RegisterFarm_def)

lemma setup_prompt_registrations: "registrations setup_prompt = []"
  by (simp add: setup_prompt_def)

lemma SaveFarmIdToConfig_registrations: "registrations (SaveFarmIdToConfig f w) = []"
  by (simp add: SaveFarmIdToConfig_def)

lemma resolve_register:
  assumes "\<not> env_yields host" "\<not> file_yields su" "\<not> console_IsInputRedirected host"
    "registration_yields su"
  shows "fst (resolve_farm_id host su) = fst (RegisterFarm (the (su_line su)) (su_register su))"
    and "registrations (snd (resolve_farm_id host su)) = [the (su_line su)]"
  using assms
  by (auto simp: resolve_farm_id_def env_yields_def file_yields_def registration_yields_def
      case_prod_beta registrations_append LoadFarmIdFromConfig_registrations
      RegisterFarm_registrations setup_prompt_registrations SaveFarmIdToConfig_registrations)

lemma resolve_registrations:
  "registrations (snd (resolve_farm_id host su)) \<noteq> [] \<Longrightarrow>
   \<not> console_IsInputRedirected host \<and> \<not> env_yields host \<and> \<not> file_yields su"
  by (auto simp: resolve_farm_id_def env_yields_def file_yields_def
      case_prod_beta registrations_append LoadFarmIdFromConfig_registrations
      split: if_splits)

lemma resolve_None:
  "fst (resolve_farm_id host su) = None \<longleftrightarrow>
   \<not> env_yields host \<and> \<not> file_yields su \<and>
   (console_IsInputRedirected host \<or> \<not> registration_yields su)"
  by (auto simp: resolve_farm_id_def env_yields_def file_yields_def registration_yields_def
      case_prod_beta IsNullOrEmpty_def split: if_splits option.splits)

lemma resolve_None_log:
  "fst (resolve_farm_id host su) = None \<Longrightarrow>
   \<exists>m. last (snd (resolve_farm_id host su)) = Log Error m"
  by (auto simp: resolve_farm_id_def case_prod_beta IsNullOrEmpty_def
      split: if_splits option.splits)

lemma ExecuteAsync_aborted:
  "fst (resolve_farm_id host su) = None \<Longrightarrow>
   ExecuteAsync host su cis =
     (Log Information ''API Target: {ApiUrl}'' # snd (resolve_farm_id host su), StartupAborted)"
  by (cases "resolve_farm_id host su") (simp add: ExecuteAsync_def)

lemma ExecuteAsync_started:
  "fst (resolve_farm_id host su) = Some farmId \<Longrightarrow>
   ExecuteAsync host su cis =
     (Log Information ''API Target: {ApiUrl}'' # snd (resolve_farm_id host su) @
      [Log Information ''Pecus Chain Agent Service Started. Farm ID: {FarmId}''] @
      fst (run_cycles host farmId cis),
      snd (run_cycles host farmId cis))"
  by (cases "resolve_farm_id host su") (simp add: ExecuteAsync_def case_prod_beta)

lemma file_yields_content:
  "file_yields su \<longleftrightarrow> (\<exists>c f. su_file su = Holds (Some c) \<and> FarmId c = Some f \<and> f \<noteq> [])"
proof (cases "su_file su")
  case NoFile
  then show ?thesis
    by (simp add: file_yields_def LoadFarmIdFromConfig_def LoadConfig_def IsNullOrEmpty_def)
next
  case Unreadable
  then show ?thesis
    by (simp add: file_yields_def LoadFarmIdFromConfig_def LoadConfig_def IsNullOrEmpty_def)
next
  case (Holds r)
  then show ?thesis
    by (cases r)
      (auto simp: file_yields_def LoadFarmIdFromConfig_def LoadConfig_def IsNullOrEmpty_def
        split: option.splits)
qed

lemma registration_yields_content:
  "registration_yields su \<longleftrightarrow>
     \<not> IsNullOrWhiteSpace (su_line su) \<and> (\<exists>r. su_register su = Reg2xx (Some r) \<and> r \<noteq> [])"
  by (cases "su_register su")
    (auto simp: registration_yields_def RegisterFarm_def IsNullOrEmpty_def split: option.splits)

lemma resolve_env_content:
  "env_FARM_ID host = Some e \<Longrightarrow> e \<noteq> [] \<Longrightarrow> e \<noteq> ''UNKNOWN_FARM'' \<Longrightarrow>
   resolve_farm_id host su = (Some e, [])"
  by (simp add: resolve_farm_id_def IsNullOrEmpty_def)

lemma resolve_file_content:
  "\<not> env_yields host \<Longrightarrow> su_file su = Holds (Some c) \<Longrightarrow> FarmId c = Some f \<Longrightarrow> f \<noteq> [] \<Longrightarrow>
   resolve_farm_id host su = (Some f, [FileRead])"
  by (auto simp: resolve_farm_id_def env_yields_def LoadFarmIdFromConfig_def LoadConfig_def
      IsNullOrEmpty_def)

lemma resolve_register_content:
  assumes "\<not> env_yields host" "\<not> file_yields su" "\<not> console_IsInputRedirected host"
    "\<not> IsNullOrWhiteSpace (su_line su)" "su_register su = Reg2xx (Some r)" "r \<noteq> []"
  shows "fst (resolve_farm_id host su) = Some r"
proof -
  from assms have "registration_yields su"
    by (simp add: registration_yields_content)
  with assms have "fst (resolve_farm_id host su) =
      fst (RegisterFarm (the (su_line su)) (su_register su))"
    by (simp add: resolve_register)
  with assms show ?thesis
    by (simp add: RegisterFarm_def)
qed

lemma resolve_Some_nonempty:
  "fst (resolve_farm_id host su) = Some farmId \<Longrightarrow> farmId \<noteq> []"
  by (auto simp: resolve_farm_id_def case_prod_beta IsNullOrEmpty_def
      split: if_splits option.splits)

text \<open>
  C6. The identity comes from the environment value when that is set (and is not the
  placeholder \<open>UNKNOWN_FARM\<close>), and then neither the file nor the console is touched;
  otherwise from the \<open>FarmId\<close> that the configuration file holds, and then no registration
  is made; otherwise from the identity that the registration request returns, which is
  attempted only when the console input is not redirected. When none of the three gives
  an identity, the method logs an error and returns before the loop, and this is the only
  way in which it returns at startup: with an identity it logs the start and runs the
  loop with that identity.
\<close>

theorem identity_resolution_order:
  "(env_yields host \<longrightarrow> resolve_farm_id host su = (env_FARM_ID host, [])) \<and>
   (env_FARM_ID host = Some e \<and> e \<noteq> [] \<and> e \<noteq> ''UNKNOWN_FARM'' \<longrightarrow>
      resolve_farm_id host su = (Some e, [])) \<and>
   (\<not> env_yields host \<and> file_yields su \<longrightarrow>
      fst (resolve_farm_id host su) = fst (LoadFarmIdFromConfig (su_file su)) \<and>
      registrations (snd (resolve_farm_id host su)) = []) \<and>
   (file_yields su \<longleftrightarrow> (\<exists>c' f'. su_file su = Holds (Some c') \<and> FarmId c' = Some f' \<and> f' \<noteq> [])) \<and>
   (\<not> env_yields host \<and> su_file su = Holds (Some c) \<and> FarmId c = Some f \<and> f \<noteq> [] \<longrightarrow>
      resolve_farm_id host su = (Some f, [FileRead])) \<and>
   (\<not> env_yields host \<and> \<not> file_yields su \<and> \<not> console_IsInputRedirected host \<and>
    registration_yields su \<longrightarrow>
      fst (resolve_farm_id host su) = fst (RegisterFarm (the (su_line su)) (su_register su)) \<and>
      registrations (snd (resolve_farm_id host su)) = [the (su_line su)]) \<and>
   (registration_yields su \<longleftrightarrow>
      \<not> IsNullOrWhiteSpace (su_line su) \<and> (\<exists>r'. su_register su = Reg2xx (Some r') \<and> r' \<noteq> [])) \<and>
   (\<not> env_yields host \<and> \<not> file_yields su \<and> \<not> console_IsInputRedirected host \<and>
    \<not> IsNullOrWhiteSpace (su_line su) \<and> su_register su = Reg2xx (Some r) \<and> r \<noteq> [] \<longrightarrow>
      fst (resolve_farm_id host su) = Some r) \<and>
   (registrations (snd (resolve_farm_id host su)) \<noteq> [] \<longrightarrow>
      \<not> console_IsInputRedirected host \<and> \<not> env_yields host \<and> \<not> file_yields su) \<and>
   (fst (resolve_farm_id host su) = None \<longleftrightarrow>
      \<not> env_yields host \<and> \<not> file_yields su \<and>
      (console_IsInputRedirected host \<or> \<not> registration_yields su)) \<and>
   (fst (resolve_farm_id host su) = None \<longrightarrow>
      ExecuteAsync host su cis =
        (Log Information ''API Target: {ApiUrl}'' # snd (resolve_farm_id host su), StartupAborted) \<and>
      (\<exists>m. last (snd (resolve_farm_id host su)) = Log Error m)) \<and>
   (fst (resolve_farm_id host su) = Some farmId \<longrightarrow>
      farmId \<noteq> [] \<and>
      ExecuteAsync host su cis =
        (Log Information ''API Target: {ApiUrl}'' # snd (resolve_farm_id host su) @
         [Log Information ''Pecus Chain Agent Service Started. Farm ID: {FarmId}''] @
         fst (run_cycles host farmId cis),
         snd (run_cycles host farmId cis))) \<and>
   (snd (ExecuteAsync host su cis) = StartupAborted \<longleftrightarrow> fst (resolve_farm_id host su) = None)"
proof -
  have a1: "env_yields host \<longrightarrow> resolve_farm_id host su = (env_FARM_ID host, [])"
    using resolve_env [of host su] by blast
  have a2: "env_FARM_ID host = Some e \<and> e \<noteq> [] \<and> e \<noteq> ''UNKNOWN_FARM'' \<longrightarrow>
      resolve_farm_id host su = (Some e, [])"
    using resolve_env_content [of host e su] by blast
  have a3: "\<not> env_yields host \<and> file_yields su \<longrightarrow>
      fst (resolve_farm_id host su) = fst (LoadFarmIdFromConfig (su_file su)) \<and>
      registrations (snd (resolve_farm_id host su)) = []"
    by (simp add: resolve_file LoadFarmIdFromConfig_registrations)
  have a4: "file_yields su \<longleftrightarrow> (\<exists>c' f'. su_file su = Holds (Some c') \<and> FarmId c' = Some f' \<and> f' \<noteq> [])"
    by (rule file_yields_content)
  have a5: "\<not> env_yields host \<and> su_file su = Holds (Some c) \<and> FarmId c = Some f \<and> f \<noteq> [] \<longrightarrow>
      resolve_farm_id host su = (Some f, [FileRead])"
    using resolve_file_content [of host su c f] by blast
  have a6: "\<not> env_yields host \<and> \<not> file_yields su \<and> \<not> console_IsInputRedirected host \<and>
    registration_yields su \<longrightarrow>
      fst (resolve_farm_id host su) = fst (RegisterFarm (the (su_line su)) (su_register su)) \<and>
      registrations (snd (resolve_farm_id host su)) = [the (su_line su)]"
    using resolve_register [of host su] by blast
  have a7: "registration_yields su \<longleftrightarrow>
      \<not> IsNullOrWhiteSpace (su_line su) \<and> (\<exists>r'. su_register su = Reg2xx (Some r') \<and> r' \<noteq> [])"
    by (rule registration_yields_content)
  have a8: "\<not> env_yields host \<and> \<not> file_yields su \<and> \<not> console_IsInputRedirected host \<and>
    \<not> IsNullOrWhiteSpace (su_line su) \<and> su_register su = Reg2xx (Some r) \<and> r \<noteq> [] \<longrightarrow>
      fst (resolve_farm_id host su) = Some r"
    using resolve_register_content [of host su r] by blast
  have a9: "registrations (snd (resolve_farm_id host su)) \<noteq> [] \<longrightarrow>
      \<not> console_IsInputRedirected host \<and> \<not> env_yields host \<and> \<not> file_yields su"
    using resolve_registrations [of host su] by blast
  have a10: "fst (resolve_farm_id host su) = None \<longleftrightarrow>
      \<not> env_yields host \<and> \<not> file_yields su \<and>
      (console_IsInputRedirected host \<or> \<not> registration_yields su)"
    by (rule resolve_None)
  have a11: "fst (resolve_farm_id host su) = None \<longrightarrow>
      ExecuteAsync host su cis =
        (Log Information ''API Target: {ApiUrl}'' # snd (resolve_farm_id host su), StartupAborted) \<and>
      (\<exists>m. last (snd (resolve_farm_id host su)) = Log Error m)"
    using resolve_None_log [of host su] ExecuteAsync_aborted [of host su cis] by blast
  have a12: "fst (resolve_farm_id host su) = Some farmId \<longrightarrow>
      farmId \<noteq> [] \<and>
      ExecuteAsync host su cis =
        (Log Information ''API Target: {ApiUrl}'' # snd (resolve_farm_id host su) @
         [Log Information ''Pecus Chain Agent Service Started. Farm ID: {FarmId}''] @
         fst (run_cycles host farmId cis),
         snd (run_cycles host farmId cis))"
    using resolve_Some_nonempty [of host su farmId] ExecuteAsync_started [of host su farmId cis] by blast
  have a13: "snd (ExecuteAsync host su cis) = StartupAborted \<longleftrightarrow> fst (resolve_farm_id host su) = None"
  proof (cases "fst (resolve_farm_id host su)")
    case None
    then show ?thesis by (simp add: ExecuteAsync_aborted)
  next
    case (Some farmId)
    then show ?thesis by (simp add: ExecuteAsync_started run_cycles_not_aborted)
  qed
  show ?thesis
    by (intro conjI) (rule a1, rule a2, rule a3, rule a4, rule a5, rule a6, rule a7, rule a8,
      rule a9, rule a10, rule a11, rule a12, rule a13)
qed

theorem identity_resolution_order_witness:
  "env_yields host0 \<and> resolve_farm_id host0 su0 = (Some ''farm-1'', []) \<and>
   \<not> env_yields (host0\<lparr>env_FARM_ID := Some ''UNKNOWN_FARM''\<rparr>) \<and> \<not> file_yields su0 \<and>
   console_IsInputRedirected (host0\<lparr>env_FARM_ID := Some ''UNKNOWN_FARM''\<rparr>) \<and>
   ExecuteAsync (host0\<lparr>env_FARM_ID := Some ''UNKNOWN_FARM''\<rparr>) su0 [ci0] =
     ([Log Information ''API Target: {ApiUrl}'',
       Log Warning ''FARM_ID is not set via Env or Config.'',
       Log Error ''Cannot register farm in non-interactive mode without FARM_ID env var.''],
      StartupAborted) \<and>
   \<not> console_IsInputRedirected
        (host0\<lparr>env_FARM_ID := None, console_IsInputRedirected := False\<rparr>) \<and>
   registration_yields su0 \<and>
   fst (resolve_farm_id (host0\<lparr>env_FARM_ID := None, console_IsInputRedirected := False\<rparr>) su0) =
     Some ''farm-9'' \<and>
   su_file (su0\<lparr>su_file := Holds (Some config2)\<rparr>) = Holds (Some config2) \<and>
   FarmId config2 = Some ''farm-2'' \<and>
   ExecuteAsync (host0\<lparr>env_FARM_ID := Some ''UNKNOWN_FARM''\<rparr>)
       (su0\<lparr>su_file := Holds (Some config2)\<rparr>) [ci0\<lparr>ci_status := GetReturns None\<rparr>] =
     ([Log Information ''API Target: {ApiUrl}'', FileRead,
       Log Information ''Pecus Chain Agent Service Started. Farm ID: {FarmId}'',
       HttpGetStatus ''farm-2'', Log Error ''Error in Sync Cycle'', Delay 60],
      StillRunning)"
proof -
  let ?h1 = "host0\<lparr>env_FARM_ID := Some ''UNKNOWN_FARM''\<rparr>"
  let ?h2 = "host0\<lparr>env_FARM_ID := None, console_IsInputRedirected := False\<rparr>"
  let ?su = "su0\<lparr>su_file := Holds (Some config2)\<rparr>"
  let ?ci = "ci0\<lparr>ci_status := GetReturns None\<rparr>"
  note T0 = identity_resolution_order [where host = "host0" and su = "su0" and cis = "[ci0]"
      and e = "''farm-1''" and c = config2 and f = "''farm-2''" and r = "''farm-9''"
      and farmId = "''farm-2''"]
  note T1 = identity_resolution_order [where host = "?h1" and su = "su0" and cis = "[ci0]"
      and e = "''farm-1''" and c = config2 and f = "''farm-2''" and r = "''farm-9''"
      and farmId = "''farm-2''"]
  note T2 = identity_resolution_order [where host = "?h2" and su = "su0" and cis = "[ci0]"
      and e = "''farm-1''" and c = config2 and f = "''farm-2''" and r = "''farm-9''"
      and farmId = "''farm-2''"]
  note T3 = identity_resolution_order [where host = "?h1" and su = "?su" and cis = "[?ci]"
      and e = "''farm-1''" and c = config2 and f = "''farm-2''" and r = "''farm-9''"
      and farmId = "''farm-2''"]
  have e0: "env_yields host0"
    by (simp add: env_yields_def host0_def IsNullOrEmpty_def)
  have e1: "\<not> env_yields ?h1" and e2: "\<not> env_yields ?h2"
    by (simp_all add: env_yields_def host0_def IsNullOrEmpty_def)
  have f: "\<not> file_yields su0"
    by (simp add: file_yields_def su0_def LoadFarmIdFromConfig_def LoadConfig_def IsNullOrEmpty_def)
  have r: "registration_yields su0"
    by (simp add: registration_yields_def su0_def IsNullOrWhiteSpace_def IsWhiteSpace_def
        RegisterFarm_def IsNullOrEmpty_def)
  have c1: "console_IsInputRedirected ?h1" and c2: "\<not> console_IsInputRedirected ?h2"
    by (simp_all add: host0_def)
  have "resolve_farm_id host0 su0 = (env_FARM_ID host0, [])"
    using e0 T0 [THEN conjunct1] by simp
  then have s0: "resolve_farm_id host0 su0 = (Some ''farm-1'', [])"
    by (simp add: host0_def)
  have n1: "fst (resolve_farm_id ?h1 su0) = None"
    using e1 f c1 T1 [THEN conjunct2, THEN conjunct2, THEN conjunct2, THEN conjunct2, THEN conjunct2, THEN conjunct2, THEN conjunct2, THEN conjunct2, THEN conjunct2, THEN conjunct1] by simp
  have s1: "snd (resolve_farm_id ?h1 su0) =
      [Log Warning ''FARM_ID is not set via Env or Config.'',
       Log Error ''Cannot register farm in non-interactive mode without FARM_ID env var.'']"
    by (simp add: resolve_farm_id_def host0_def su0_def LoadFarmIdFromConfig_def LoadConfig_def
        IsNullOrEmpty_def)
  have x1: "ExecuteAsync ?h1 su0 [ci0] =
      (Log Information ''API Target: {ApiUrl}'' # snd (resolve_farm_id ?h1 su0), StartupAborted)"
    using n1 T1 [THEN conjunct2, THEN conjunct2, THEN conjunct2, THEN conjunct2, THEN conjunct2, THEN conjunct2, THEN conjunct2, THEN conjunct2, THEN conjunct2, THEN conjunct2, THEN conjunct1] by simp
  have s2: "fst (resolve_farm_id ?h2 su0) =
      fst (RegisterFarm (the (su_line su0)) (su_register su0))"
    using e2 f c2 r T2 [THEN conjunct2, THEN conjunct2, THEN conjunct2, THEN conjunct2, THEN conjunct2, THEN conjunct1] by simp
  have g: "fst (RegisterFarm (the (su_line su0)) (su_register su0)) = Some ''farm-9''"
    by (simp add: su0_def RegisterFarm_def)
  have k: "su_file ?su = Holds (Some config2) \<and> FarmId config2 = Some ''farm-2''"
    by (simp add: config2_def)
  have s3: "resolve_farm_id ?h1 ?su = (Some ''farm-2'', [FileRead])"
    using e1 k T3 [THEN conjunct2, THEN conjunct2, THEN conjunct2, THEN conjunct2, THEN conjunct1] by simp
  have x3: "ExecuteAsync ?h1 ?su [?ci] =
        (Log Information ''API Target: {ApiUrl}'' # snd (resolve_farm_id ?h1 ?su) @
         [Log Information ''Pecus Chain Agent Service Started. Farm ID: {FarmId}''] @
         fst (run_cycles ?h1 ''farm-2'' [?ci]),
         snd (run_cycles ?h1 ''farm-2'' [?ci]))"
    using s3 T3 [THEN conjunct2, THEN conjunct2, THEN conjunct2, THEN conjunct2, THEN conjunct2, THEN conjunct2, THEN conjunct2, THEN conjunct2, THEN conjunct2, THEN conjunct2, THEN conjunct2, THEN conjunct1] by simp
  have n: "fst (GetSyncStatus ''farm-2'' (ci_status ?ci)) = None"
    by (simp add: GetSyncStatus_def)
  have t: "cycle_try ?h1 ''farm-2'' ?ci =
             \<lparr>cr_events = [HttpGetStatus ''farm-2''], cr_payload = None, cr_threw = True\<rparr>"
    by (simp add: cycle_try_null [OF n]) (simp add: ci0_def LoadConfig_def GetSyncStatus_def)
  have cc: "ci_cancel ?ci = NotRequested"
    by (simp add: ci0_def)
  have l: "run_cycles ?h1 ''farm-2'' [?ci] =
      ([HttpGetStatus ''farm-2'', Log Error ''Error in Sync Cycle'', Delay 60], StillRunning)"
    by (simp add: t cc cycle_catch_NotRequested)
  have x3': "ExecuteAsync ?h1 ?su [?ci] =
     ([Log Information ''API Target: {ApiUrl}'', FileRead,
       Log Information ''Pecus Chain Agent Service Started. Farm ID: {FarmId}'',
       HttpGetStatus ''farm-2'', Log Error ''Error in Sync Cycle'', Delay 60],
      StillRunning)"
    by (simp only: x3 s3 l) simp
  have x1': "ExecuteAsync ?h1 su0 [ci0] =
     ([Log Information ''API Target: {ApiUrl}'',
       Log Warning ''FARM_ID is not set via Env or Config.'',
       Log Error ''Cannot register farm in non-interactive mode without FARM_ID env var.''],
      StartupAborted)"
    by (simp only: x1 s1)
  have s2': "fst (resolve_farm_id ?h2 su0) = Some ''farm-9''"
    by (simp only: s2 g)
  show ?thesis
    by (intro conjI) (rule e0, rule s0, rule e1, rule f, rule c1, rule x1', rule c2, rule r,
      rule s2', rule k [THEN conjunct1], rule k [THEN conjunct2], rule x3')
qed










subsection \<open>Queries\<close>

lemma length_top_by: "length (top_by key rows) = min (length rows) batch_limit"
  by (simp add: top_by_def)

lemma set_top_by: "set (top_by key rows) \<subseteq> set rows"
proof -
  have "set (take batch_limit (sort_key key rows)) \<subseteq> set (sort_key key rows)"
    by (rule set_take_subset)
  then show ?thesis by (simp add: top_by_def)
qed

lemma sorted_top_by: "sorted (map key (top_by key rows))"
proof -
  have "sorted (map key (sort_key key rows))"
    by (rule sorted_sort_key)
  then have "sorted (take batch_limit (map key (sort_key key rows)))"
    by (rule sorted_wrt_take)
  then show ?thesis by (simp add: top_by_def take_map)
qed

lemma sorted_the:
  "sorted (map f xs) \<Longrightarrow> \<forall>x \<in> set xs. f x \<noteq> None \<Longrightarrow> sorted (map (\<lambda>x. the (f x)) xs)"
proof (induction xs)
  case Nil
  show ?case by simp
next
  case (Cons x xs)
  then show ?case
    by (auto simp: less_eq_option_def split: option.splits)
qed

lemma fetch_streams_fields:
  "basic_animals (fetch_streams db clock farmId ws wa wl wd) = fetch_animals db (oneYearAgo clock) wa"
  "lactations_summary (fetch_streams db clock farmId ws wa wl wd) =
     fetch_lactations db (oneYearAgo clock) wl"
  "sessions_milk_yield (fetch_streams db clock farmId ws wa wl wd) =
     fetch_sessions db (oneYearAgo clock) ws"
  "history_milk_diversion_info (fetch_streams db clock farmId ws wa wl wd) = fetch_diversions db wd"
  "history_animals (fetch_streams db clock farmId ws wa wl wd) =
     fetch_history db (fetch_animals db (oneYearAgo clock) wa)"
  "voluntary_sessions_milk_yield (fetch_streams db clock farmId ws wa wl wd) =
     fetch_voluntary db (fetch_sessions db (oneYearAgo clock) ws)"
  by (simp_all add: fetch_streams_def Let_def)

text \<open>
  C2, as stated, fails for the animals: three rows of the table have an identifier above
  the watermark 1, the limit is 2000, and the batch has two rows, because the query also
  asks for no exit date or a recent one.
\<close>

theorem batch_bound_ignores_exit_filter:
  "(1::int) > 0 \<and> rows_above ba_OID 1 (tbl_BasicAnimal db0) = 3 \<and>
   length (basic_animals (fst (FetchBatchData host0 db0 clock0 rnd0 ''farm-1'' 1 1 1 1 ''DelPro''))) \<noteq>
     min (rows_above ba_OID 1 (tbl_BasicAnimal db0)) batch_limit"
proof -
  have "rows_above ba_OID 1 (tbl_BasicAnimal db0) = 3"
    by (simp add: rows_above_def db0_def)
  then show ?thesis
    by (simp add: payload0 batch_limit_def)
qed

lemma batch_animals:
  assumes "reads_store host db dn"
  shows "flt_BasicAnimal db = None \<longrightarrow>
       length (basic_animals (fst (FetchBatchData host db clock rnd farmId ws wa wl wd dn))) =
         min (length (filter (\<lambda>a. exit_recent (oneYearAgo clock) a \<and> ba_OID a > wa)
                (tbl_BasicAnimal db))) 2000 \<and>
       (\<forall>a \<in> set (basic_animals (fst (FetchBatchData host db clock rnd farmId ws wa wl wd dn))). ba_OID a > wa) \<and>
       sorted (map ba_OID (basic_animals (fst (FetchBatchData host db clock rnd farmId ws wa wl wd dn))))"
  using set_top_by [of ba_OID "filter (\<lambda>a. exit_recent (oneYearAgo clock) a \<and> ba_OID a > wa)
                (tbl_BasicAnimal db)"]
  by (auto simp: FetchBatchData_reads [OF assms] fetch_streams_fields fetch_animals_def
      query_animals_def rows_read_def length_top_by sorted_top_by batch_limit_def)

lemma batch_sessions:
  assumes "reads_store host db dn"
  shows "flt_SessionMilkYield db = None \<and> ws > 0 \<longrightarrow>
       length (sessions_milk_yield (fst (FetchBatchData host db clock rnd farmId ws wa wl wd dn))) =
         min (length (filter (\<lambda>s. gt_col (sm_OID s) ws) (tbl_SessionMilkYield db))) 2000 \<and>
       (\<forall>s \<in> set (sessions_milk_yield (fst (FetchBatchData host db clock rnd farmId ws wa wl wd dn))). \<exists>x. sm_OID s = Some x \<and> x > ws) \<and>
       sorted (map (\<lambda>s. the (sm_OID s)) (sessions_milk_yield (fst (FetchBatchData host db clock rnd farmId ws wa wl wd dn))))"
proof
  assume a: "flt_SessionMilkYield db = None \<and> ws > 0"
  let ?q = "filter (\<lambda>s. gt_col (sm_OID s) ws) (tbl_SessionMilkYield db)"
  from a have b: "sessions_milk_yield (fst (FetchBatchData host db clock rnd farmId ws wa wl wd dn)) = top_by sm_OID ?q"
    by (simp add: FetchBatchData_reads [OF assms] fetch_streams_fields fetch_sessions_def
        query_sessions_def rows_read_def)
  have m: "\<forall>s \<in> set (top_by sm_OID ?q). \<exists>x. sm_OID s = Some x \<and> x > ws"
    using set_top_by [of sm_OID ?q] by (auto simp: gt_col_def split: option.splits)
  then have "\<forall>s \<in> set (top_by sm_OID ?q). sm_OID s \<noteq> None"
    by auto
  with sorted_top_by [of sm_OID ?q] have "sorted (map (\<lambda>s. the (sm_OID s)) (top_by sm_OID ?q))"
    by (rule sorted_the)
  with m show "length (sessions_milk_yield (fst (FetchBatchData host db clock rnd farmId ws wa wl wd dn))) =
         min (length (filter (\<lambda>s. gt_col (sm_OID s) ws) (tbl_SessionMilkYield db))) 2000 \<and>
       (\<forall>s \<in> set (sessions_milk_yield (fst (FetchBatchData host db clock rnd farmId ws wa wl wd dn))). \<exists>x. sm_OID s = Some x \<and> x > ws) \<and>
       sorted (map (\<lambda>s. the (sm_OID s)) (sessions_milk_yield (fst (FetchBatchData host db clock rnd farmId ws wa wl wd dn))))"
    by (simp add: b length_top_by batch_limit_def)
qed

lemma batch_diversions:
  assumes "reads_store host db dn"
  shows "flt_HistoryMilkDiversionInfo db = None \<longrightarrow>
       length (history_milk_diversion_info (fst (FetchBatchData host db clock rnd farmId ws wa wl wd dn))) =
         min (length (filter (\<lambda>d. md_OID d > wd) (tbl_HistoryMilkDiversionInfo db))) 2000 \<and>
       (\<forall>d \<in> set (history_milk_diversion_info (fst (FetchBatchData host db clock rnd farmId ws wa wl wd dn))). md_OID d > wd) \<and>
       sorted (map md_OID (history_milk_diversion_info (fst (FetchBatchData host db clock rnd farmId ws wa wl wd dn))))"
  using set_top_by [of md_OID "filter (\<lambda>d. md_OID d > wd) (tbl_HistoryMilkDiversionInfo db)"]
  by (auto simp: FetchBatchData_reads [OF assms] fetch_streams_fields fetch_diversions_def
      query_diversions_def rows_read_def length_top_by sorted_top_by batch_limit_def)

lemma batch_lactations:
  assumes "reads_store host db dn"
  shows "flt_AnimalLactationSummary db = None \<longrightarrow>
       length (lactations_summary (fst (FetchBatchData host db clock rnd farmId ws wa wl wd dn))) =
         min (length [l. l \<leftarrow> tbl_AnimalLactationSummary db, a \<leftarrow> tbl_BasicAnimal db,
                         ls_Animal l = Some (ba_OID a), exit_recent (oneYearAgo clock) a,
                         ls_OID l > wl]) 2000 \<and>
       (\<forall>l \<in> set (lactations_summary (fst (FetchBatchData host db clock rnd farmId ws wa wl wd dn))). ls_OID l > wl) \<and>
       sorted (map ls_OID (lactations_summary (fst (FetchBatchData host db clock rnd farmId ws wa wl wd dn))))"
  using set_top_by [of ls_OID "[l. l \<leftarrow> tbl_AnimalLactationSummary db, a \<leftarrow> tbl_BasicAnimal db,
                         ls_Animal l = Some (ba_OID a), exit_recent (oneYearAgo clock) a,
                         ls_OID l > wl]"]
  by (auto simp: FetchBatchData_reads [OF assms] fetch_streams_fields fetch_lactations_def
      query_lactations_def rows_read_def length_top_by sorted_top_by batch_limit_def
      split: if_splits)

text \<open>
  C2, amended. When the agent reads the store and the read of a stream completes, the
  batch of that stream has exactly min(N, 2000) rows, where N counts the rows that the
  stream's query selects: identifier above the watermark and, for the animals, no exit
  date or one after the one-year cut-off; for the lactations, joined to such an animal;
  for the sessions (watermark above 0) and the diversions, nothing more. Every row of the
  batch has an identifier above the watermark, and the batch is sorted by identifier.
\<close>

theorem batch_bound:
  "reads_store host db dn \<Longrightarrow>
   (flt_BasicAnimal db = None \<longrightarrow>
       length (basic_animals (fst (FetchBatchData host db clock rnd farmId ws wa wl wd dn))) =
         min (length (filter (\<lambda>a. exit_recent (oneYearAgo clock) a \<and> ba_OID a > wa)
                (tbl_BasicAnimal db))) 2000 \<and>
       (\<forall>a \<in> set (basic_animals (fst (FetchBatchData host db clock rnd farmId ws wa wl wd dn))). ba_OID a > wa) \<and>
       sorted (map ba_OID (basic_animals (fst (FetchBatchData host db clock rnd farmId ws wa wl wd dn))))) \<and>
   (flt_SessionMilkYield db = None \<and> ws > 0 \<longrightarrow>
       length (sessions_milk_yield (fst (FetchBatchData host db clock rnd farmId ws wa wl wd dn))) =
         min (length (filter (\<lambda>s. gt_col (sm_OID s) ws) (tbl_SessionMilkYield db))) 2000 \<and>
       (\<forall>s \<in> set (sessions_milk_yield (fst (FetchBatchData host db clock rnd farmId ws wa wl wd dn))). \<exists>x. sm_OID s = Some x \<and> x > ws) \<and>
       sorted (map (\<lambda>s. the (sm_OID s)) (sessions_milk_yield (fst (FetchBatchData host db clock rnd farmId ws wa wl wd dn))))) \<and>
   (flt_HistoryMilkDiversionInfo db = None \<longrightarrow>
       length (history_milk_diversion_info (fst (FetchBatchData host db clock rnd farmId ws wa wl wd dn))) =
         min (length (filter (\<lambda>d. md_OID d > wd) (tbl_HistoryMilkDiversionInfo db))) 2000 \<and>
       (\<forall>d \<in> set (history_milk_diversion_info (fst (FetchBatchData host db clock rnd farmId ws wa wl wd dn))). md_OID d > wd) \<and>
       sorted (map md_OID (history_milk_diversion_info (fst (FetchBatchData host db clock rnd farmId ws wa wl wd dn))))) \<and>
   (flt_AnimalLactationSummary db = None \<longrightarrow>
       length (lactations_summary (fst (FetchBatchData host db clock rnd farmId ws wa wl wd dn))) =
         min (length [l. l \<leftarrow> tbl_AnimalLactationSummary db, a \<leftarrow> tbl_BasicAnimal db,
                         ls_Animal l = Some (ba_OID a), exit_recent (oneYearAgo clock) a,
                         ls_OID l > wl]) 2000 \<and>
       (\<forall>l \<in> set (lactations_summary (fst (FetchBatchData host db clock rnd farmId ws wa wl wd dn))). ls_OID l > wl) \<and>
       sorted (map ls_OID (lactations_summary (fst (FetchBatchData host db clock rnd farmId ws wa wl wd dn)))))"
  using batch_animals [of host db dn clock rnd farmId ws wa wl wd]
    batch_sessions [of host db dn ws clock rnd farmId wa wl wd]
    batch_diversions [of host db dn clock rnd farmId ws wa wl wd]
    batch_lactations [of host db dn clock rnd farmId ws wa wl wd]
  by blast

theorem batch_bound_witness:
  "reads_store host0 db0 ''DelPro'' \<and> flt_BasicAnimal db0 = None \<and>
   flt_SessionMilkYield db0 = None \<and> (1::int) > 0 \<and>
   length (basic_animals (fst (FetchBatchData host0 db0 clock0 rnd0 ''farm-1'' 1 1 1 1 ''DelPro''))) = 2 \<and>
   length (sessions_milk_yield (fst (FetchBatchData host0 db0 clock0 rnd0 ''farm-1'' 1 1 1 1 ''DelPro''))) = 2 \<and>
   sorted (map ba_OID
     (basic_animals (fst (FetchBatchData host0 db0 clock0 rnd0 ''farm-1'' 1 1 1 1 ''DelPro''))))"
proof -
  have f: "flt_BasicAnimal db0 = None \<and> flt_SessionMilkYield db0 = None"
    by (simp add: db0_def)
  have a: "length (filter (\<lambda>a. exit_recent (oneYearAgo clock0) a \<and> ba_OID a > 1)
             (tbl_BasicAnimal db0)) = 2"
    by (simp add: db0_def clock0_def exit_recent_def)
  have s: "length (filter (\<lambda>s. gt_col (sm_OID s) 1) (tbl_SessionMilkYield db0)) = 2"
    by (simp add: db0_def gt_col_def)
  show ?thesis
    using f a s host0_reads_store [of "''DelPro''"]
      batch_bound [where host = host0 and db = db0 and dn = "''DelPro''" and clock = clock0
        and rnd = rnd0 and farmId = "''farm-1''" and ws = 1 and wa = 1 and wl = 1 and wd = 1]
    by simp
qed

subsection \<open>Dependent streams\<close>

lemma set_map_filter_id: "set (List.map_filter id xs) = {a. Some a \<in> set xs}"
  by (induction xs) (auto split: option.splits)

lemma nullable_Min_None: "List.map_filter id xs = [] \<Longrightarrow> nullable_Min xs = None"
  by (simp add: nullable_Min_def)

lemma nullable_Max_None: "List.map_filter id xs = [] \<Longrightarrow> nullable_Max xs = None"
  by (simp add: nullable_Max_def)

lemma nullable_Min_Some:
  "List.map_filter id xs = y # ys \<Longrightarrow> nullable_Min xs = Some (Min {a. Some a \<in> set xs})"
proof -
  assume a: "List.map_filter id xs = y # ys"
  have "{a. Some a \<in> set xs} = set (y # ys)"
    using set_map_filter_id [of xs] a by simp
  then have "Min {a. Some a \<in> set xs} = fold min ys y"
    by (simp only: Min.set_eq_fold)
  with a show ?thesis
    by (simp add: nullable_Min_def)
qed

lemma nullable_Max_Some:
  "List.map_filter id xs = y # ys \<Longrightarrow> nullable_Max xs = Some (Max {a. Some a \<in> set xs})"
proof -
  assume a: "List.map_filter id xs = y # ys"
  have "{a. Some a \<in> set xs} = set (y # ys)"
    using set_map_filter_id [of xs] a by simp
  then have "Max {a. Some a \<in> set xs} = fold max ys y"
    by (simp only: Max.set_eq_fold)
  with a show ?thesis
    by (simp add: nullable_Max_def)
qed

lemma fetch_voluntary_range:
  assumes "flt_VoluntarySessionMilkYield db = None"
  shows "fetch_voluntary db sessions =
     sort_key vs_OID
       (filter (\<lambda>v. \<exists>a b. Some a \<in> set (map sm_OID sessions) \<and> Some b \<in> set (map sm_OID sessions) \<and>
                        a \<le> vs_OID v \<and> vs_OID v \<le> b)
          (tbl_VoluntarySessionMilkYield db))"
proof (cases "List.map_filter id (map sm_OID sessions)")
  case Nil
  then have "{a. Some a \<in> set (map sm_OID sessions)} = {}"
    using set_map_filter_id [of "map sm_OID sessions"] by simp
  then have "\<And>a. Some a \<notin> set (map sm_OID sessions)"
    by blast
  then have "filter (\<lambda>v. \<exists>a b. Some a \<in> set (map sm_OID sessions) \<and> Some b \<in> set (map sm_OID sessions) \<and>
                        a \<le> vs_OID v \<and> vs_OID v \<le> b)
          (tbl_VoluntarySessionMilkYield db) = []"
    by simp
  with Nil show ?thesis
    by (simp add: fetch_voluntary_def nullable_Min_None)
next
  case (Cons y ys)
  let ?O = "{a. Some a \<in> set (map sm_OID sessions)}"
  have O: "?O = set (y # ys)"
    using set_map_filter_id [of "map sm_OID sessions"] Cons by simp
  then have fin: "finite ?O" and ne: "?O \<noteq> {}"
    by simp_all
  from Cons have s: "sessions \<noteq> []"
    by auto
  have "(Min ?O \<le> x \<and> x \<le> Max ?O) \<longleftrightarrow> (\<exists>a b. a \<in> ?O \<and> b \<in> ?O \<and> a \<le> x \<and> x \<le> b)" for x
  proof
    assume "Min ?O \<le> x \<and> x \<le> Max ?O"
    then show "\<exists>a b. a \<in> ?O \<and> b \<in> ?O \<and> a \<le> x \<and> x \<le> b"
      using Min_in [OF fin ne] Max_in [OF fin ne] by blast
  next
    assume "\<exists>a b. a \<in> ?O \<and> b \<in> ?O \<and> a \<le> x \<and> x \<le> b"
    then obtain a b where "a \<in> ?O" "b \<in> ?O" "a \<le> x" "x \<le> b"
      by blast
    then show "Min ?O \<le> x \<and> x \<le> Max ?O"
      using Min_le [OF fin, of a] Max_ge [OF fin, of b] by linarith
  qed
  then have "query_voluntary db (Min ?O) (Max ?O) =
     sort_key vs_OID
       (filter (\<lambda>v. \<exists>a b. Some a \<in> set (map sm_OID sessions) \<and> Some b \<in> set (map sm_OID sessions) \<and>
                        a \<le> vs_OID v \<and> vs_OID v \<le> b)
          (tbl_VoluntarySessionMilkYield db))"
    by (simp add: query_voluntary_def)
  with s assms show ?thesis
    by (simp add: fetch_voluntary_def nullable_Min_Some [OF Cons] nullable_Max_Some [OF Cons]
        rows_read_def)
qed

lemma fetch_history_members:
  assumes "flt_BasicAnimal db = None" and "flt_HistoryAnimal db = None"
  shows "fetch_history db animals =
     filter (\<lambda>h. \<exists>a \<in> set animals. ha_ReferenceID h = Some (ba_OID a)) (tbl_HistoryAnimal db)"
proof -
  have "in_col c (map ba_OID animals) \<longleftrightarrow> (\<exists>a \<in> set animals. c = Some (ba_OID a))" for c
    by (auto simp: in_col_def split: option.splits)
  with assms show ?thesis
    by (simp add: fetch_history_def query_history_def rows_read_def read_throws_def)
qed

text \<open>
  C3, as stated, fails for the voluntary sessions: the session batch holds the OIDs 10 and
  12 and the voluntary row with OID 11 is returned, which is the OID of no row of the
  session batch.
\<close>

theorem voluntary_is_not_by_membership:
  "map sm_OID (sessions_milk_yield (fst (FetchBatchData host0 db0 clock0 rnd0 ''farm-1'' 1 1 1 1 ''DelPro''))) =
     [Some 10, Some 12] \<and>
   set (voluntary_sessions_milk_yield
          (fst (FetchBatchData host0 db0 clock0 rnd0 ''farm-1'' 1 1 1 1 ''DelPro''))) \<noteq>
   set (voluntary_by_membership (tbl_VoluntarySessionMilkYield db0)
          (sessions_milk_yield (fst (FetchBatchData host0 db0 clock0 rnd0 ''farm-1'' 1 1 1 1 ''DelPro''))))"
proof -
  have "voluntary_by_membership (tbl_VoluntarySessionMilkYield db0)
          (sessions_milk_yield (fst (FetchBatchData host0 db0 clock0 rnd0 ''farm-1'' 1 1 1 1 ''DelPro''))) =
        [\<lparr>vs_OID = 10, vs_other = ''v10''\<rparr>]"
    by (simp add: payload0 voluntary_by_membership_def) (simp add: db0_def)
  then show ?thesis
    by (simp add: payload0)
qed

text \<open>
  C3, amended. When the agent reads the store and the reads complete, the history-animals
  records returned are exactly the rows whose ReferenceID is the OID of a row of the
  basic-animal batch just extracted, and the voluntary-session records returned are
  exactly the rows whose OID lies between two OIDs of the session batch just extracted,
  that is, from its smallest to its largest OID. When the parent batch is empty the
  dependent batch is empty.
\<close>

theorem dependent_streams:
  "reads_store host db dn \<Longrightarrow>
   (flt_BasicAnimal db = None \<and> flt_HistoryAnimal db = None \<longrightarrow>
      history_animals (fst (FetchBatchData host db clock rnd farmId ws wa wl wd dn)) =
        filter (\<lambda>h. \<exists>a \<in> set (basic_animals (fst (FetchBatchData host db clock rnd farmId ws wa wl wd dn))).
                       ha_ReferenceID h = Some (ba_OID a))
          (tbl_HistoryAnimal db)) \<and>
   (flt_VoluntarySessionMilkYield db = None \<longrightarrow>
      voluntary_sessions_milk_yield (fst (FetchBatchData host db clock rnd farmId ws wa wl wd dn)) =
        sort_key vs_OID
          (filter (\<lambda>v. \<exists>a b.
               Some a \<in> set (map sm_OID (sessions_milk_yield
                               (fst (FetchBatchData host db clock rnd farmId ws wa wl wd dn)))) \<and>
               Some b \<in> set (map sm_OID (sessions_milk_yield
                               (fst (FetchBatchData host db clock rnd farmId ws wa wl wd dn)))) \<and>
               a \<le> vs_OID v \<and> vs_OID v \<le> b)
             (tbl_VoluntarySessionMilkYield db))) \<and>
   (basic_animals (fst (FetchBatchData host db clock rnd farmId ws wa wl wd dn)) = [] \<longrightarrow>
      history_animals (fst (FetchBatchData host db clock rnd farmId ws wa wl wd dn)) = []) \<and>
   (sessions_milk_yield (fst (FetchBatchData host db clock rnd farmId ws wa wl wd dn)) = [] \<longrightarrow>
      voluntary_sessions_milk_yield (fst (FetchBatchData host db clock rnd farmId ws wa wl wd dn)) = [])"
  using FetchBatchData_dependency [of host db clock rnd farmId ws wa wl wd dn]
  by (simp add: FetchBatchData_reads fetch_streams_fields fetch_voluntary_range
      fetch_history_members)

theorem dependent_streams_witness:
  "reads_store host0 db0 ''DelPro'' \<and> flt_BasicAnimal db0 = None \<and> flt_HistoryAnimal db0 = None \<and>
   flt_VoluntarySessionMilkYield db0 = None \<and>
   history_animals (fst (FetchBatchData host0 db0 clock0 rnd0 ''farm-1'' 1 1 1 1 ''DelPro'')) =
     [\<lparr>ha_ReferenceID = Some 7, ha_other = ''h7''\<rparr>] \<and>
   voluntary_sessions_milk_yield (fst (FetchBatchData host0 db0 clock0 rnd0 ''farm-1'' 1 1 1 1 ''DelPro'')) =
     sort_key vs_OID
       (filter (\<lambda>v. \<exists>a b. Some a \<in> set [Some 10, Some 12] \<and> Some b \<in> set [Some 10, Some 12] \<and>
                        a \<le> vs_OID v \<and> vs_OID v \<le> b)
          (tbl_VoluntarySessionMilkYield db0))"
proof -
  have f: "flt_BasicAnimal db0 = None \<and> flt_HistoryAnimal db0 = None \<and>
           flt_VoluntarySessionMilkYield db0 = None"
    by (simp add: db0_def)
  have t: "tbl_HistoryAnimal db0 =
     [\<lparr>ha_ReferenceID = Some 7, ha_other = ''h7''\<rparr>, \<lparr>ha_ReferenceID = Some 5, ha_other = ''h5''\<rparr>,
      \<lparr>ha_ReferenceID = None, ha_other = ''h''\<rparr>]"
    by (simp add: db0_def)
  show ?thesis
    using f host0_reads_store [of "''DelPro''"]
      dependent_streams [where host = host0 and db = db0 and dn = "''DelPro''" and clock = clock0
        and rnd = rnd0 and farmId = "''farm-1''" and ws = 1 and wa = 1 and wl = 1 and wd = 1]
    by (simp add: payload0 t)
qed


subsection \<open>Read failures\<close>

lemma conn_opens_set_fault: "conn_opens (set_fault s f db) = conn_opens db"
  by (cases s) simp_all

lemma fetch_animals_set_fault:
  "s \<noteq> Animals \<Longrightarrow> fetch_animals (set_fault s f db) y w = fetch_animals db y w"
  by (cases s) (simp_all add: fetch_animals_def query_animals_def)

lemma fetch_history_set_fault:
  "s \<noteq> Animals \<Longrightarrow> s \<noteq> HistoryAnimals \<Longrightarrow>
   fetch_history (set_fault s f db) animals = fetch_history db animals"
  by (cases s) (simp_all add: fetch_history_def query_history_def)

lemma fetch_lactations_set_fault:
  "s \<noteq> Lactations \<Longrightarrow> fetch_lactations (set_fault s f db) y w = fetch_lactations db y w"
  by (cases s) (simp_all add: fetch_lactations_def query_lactations_def)

lemma fetch_sessions_set_fault:
  "s \<noteq> Sessions \<Longrightarrow> fetch_sessions (set_fault s f db) y w = fetch_sessions db y w"
  by (cases s)
    (simp_all add: fetch_sessions_def query_sessions_def startDate_def hasRecentData_def)

lemma fetch_voluntary_set_fault:
  "s \<noteq> Voluntary \<Longrightarrow> fetch_voluntary (set_fault s f db) sessions = fetch_voluntary db sessions"
  by (cases s) (simp_all add: fetch_voluntary_def query_voluntary_def split: option.splits)

lemma fetch_diversions_set_fault:
  "s \<noteq> Diversions \<Longrightarrow> fetch_diversions (set_fault s f db) w = fetch_diversions db w"
  by (cases s) (simp_all add: fetch_diversions_def query_diversions_def)

lemmas fetch_set_fault =
  fetch_animals_set_fault fetch_history_set_fault fetch_lactations_set_fault
  fetch_sessions_set_fault fetch_voluntary_set_fault fetch_diversions_set_fault

lemma fetch_streams_frame:
  "outside s (fetch_streams (set_fault s f db) clock farmId ws wa wl wd) =
   outside s (fetch_streams db clock farmId ws wa wl wd)"
  by (cases s)
    (simp_all add: outside_def fetch_streams_def Let_def fetch_set_fault del: set_fault.simps)

lemma outside_frame:
  "outside s (fst (FetchBatchData host (set_fault s f db) clock rnd farmId ws wa wl wd dn)) =
   outside s (fst (FetchBatchData host db clock rnd farmId ws wa wl wd dn))"
  by (simp add: FetchBatchData_def case_prod_beta Let_def conn_opens_set_fault
      fetch_streams_frame)

lemma fault_at_first_row:
  "reads_store host db dn \<Longrightarrow> read_fault s db = Some 0 \<Longrightarrow>
   batch_size s (fst (FetchBatchData host db clock rnd farmId ws wa wl wd dn)) = 0"
  by (cases s)
    (simp_all add: FetchBatchData_reads fetch_streams_fields fetch_animals_def fetch_history_def
      fetch_lactations_def fetch_sessions_def fetch_voluntary_def fetch_diversions_def
      rows_read_def split: option.splits)

lemma starts_take: "starts (take k xs) xs"
  by (simp add: starts_def min_def take_all)

lemma starts_refl: "starts xs xs"
  by (simp add: starts_def)

lemma starts_rows_read: "starts (rows_read f xs) (rows_read None xs)"
  by (cases f) (simp_all add: rows_read_def starts_take starts_refl)

lemma rows_read_None: "rows_read None xs = xs"
  by (simp add: rows_read_def)

lemma starts_Nil: "starts [] xs"
  by (simp add: starts_def)

lemma fetch_animals_starts:
  "starts (fetch_animals db y w) (fetch_animals (set_fault Animals None db) y w)"
  using starts_rows_read [of "flt_BasicAnimal db" "query_animals db y w"]
  by (simp add: fetch_animals_def query_animals_def)

lemma fetch_lactations_starts:
  "starts (fetch_lactations db y w) (fetch_lactations (set_fault Lactations None db) y w)"
  using starts_rows_read [of "flt_AnimalLactationSummary db" "query_lactations db y w"]
  by (simp add: fetch_lactations_def query_lactations_def)

lemma query_sessions_fault:
  "query_sessions (set_fault Sessions f db) y w = query_sessions db y w"
  by (simp add: query_sessions_def startDate_def hasRecentData_def)

lemma fetch_sessions_starts:
  "starts (fetch_sessions db y w) (fetch_sessions (set_fault Sessions None db) y w)"
proof -
  have "flt_SessionMilkYield (set_fault Sessions None db) = None"
    by simp
  then show ?thesis
    using starts_rows_read [of "flt_SessionMilkYield db" "query_sessions db y w"]
    by (simp add: fetch_sessions_def query_sessions_fault starts_Nil del: set_fault.simps)
qed

lemma fetch_diversions_starts:
  "starts (fetch_diversions db w) (fetch_diversions (set_fault Diversions None db) w)"
  using starts_rows_read [of "flt_HistoryMilkDiversionInfo db" "query_diversions db w"]
  by (simp add: fetch_diversions_def query_diversions_def)

lemma fetch_history_starts:
  "starts (fetch_history db animals) (fetch_history (set_fault HistoryAnimals None db) animals)"
  using starts_rows_read [of "flt_HistoryAnimal db" "query_history db animals"]
  by (simp add: fetch_history_def query_history_def starts_Nil)

lemma fetch_voluntary_starts:
  "starts (fetch_voluntary db sessions) (fetch_voluntary (set_fault Voluntary None db) sessions)"
proof (cases "nullable_Min (map sm_OID sessions)")
  case None
  then show ?thesis by (simp add: fetch_voluntary_def starts_Nil)
next
  case lo: (Some minOid)
  show ?thesis
  proof (cases "nullable_Max (map sm_OID sessions)")
    case None
    with lo show ?thesis by (simp add: fetch_voluntary_def starts_Nil)
  next
    case (Some maxOid)
    with lo show ?thesis
      using starts_rows_read [of "flt_VoluntarySessionMilkYield db" "query_voluntary db minOid maxOid"]
      by (simp add: fetch_voluntary_def query_voluntary_def starts_Nil)
  qed
qed

lemma fetch_streams_starts:
  "starts (basic_animals (fetch_streams db clock farmId ws wa wl wd))
     (basic_animals (fetch_streams (set_fault Animals None db) clock farmId ws wa wl wd))"
  "starts (history_animals (fetch_streams db clock farmId ws wa wl wd))
     (history_animals (fetch_streams (set_fault HistoryAnimals None db) clock farmId ws wa wl wd))"
  "starts (lactations_summary (fetch_streams db clock farmId ws wa wl wd))
     (lactations_summary (fetch_streams (set_fault Lactations None db) clock farmId ws wa wl wd))"
  "starts (sessions_milk_yield (fetch_streams db clock farmId ws wa wl wd))
     (sessions_milk_yield (fetch_streams (set_fault Sessions None db) clock farmId ws wa wl wd))"
  "starts (voluntary_sessions_milk_yield (fetch_streams db clock farmId ws wa wl wd))
     (voluntary_sessions_milk_yield (fetch_streams (set_fault Voluntary None db) clock farmId ws wa wl wd))"
  "starts (history_milk_diversion_info (fetch_streams db clock farmId ws wa wl wd))
     (history_milk_diversion_info (fetch_streams (set_fault Diversions None db) clock farmId ws wa wl wd))"
  by (simp_all add: fetch_streams_fields fetch_set_fault fetch_animals_starts
      fetch_lactations_starts fetch_sessions_starts fetch_diversions_starts
      fetch_history_starts fetch_voluntary_starts del: set_fault.simps)

lemma FetchBatchData_starts:
  "starts (basic_animals (fst (FetchBatchData host db clock rnd farmId ws wa wl wd dn)))
     (basic_animals (fst (FetchBatchData host (set_fault Animals None db) clock rnd farmId ws wa wl wd dn))) \<and>
   starts (history_animals (fst (FetchBatchData host db clock rnd farmId ws wa wl wd dn)))
     (history_animals (fst (FetchBatchData host (set_fault HistoryAnimals None db) clock rnd farmId ws wa wl wd dn))) \<and>
   starts (lactations_summary (fst (FetchBatchData host db clock rnd farmId ws wa wl wd dn)))
     (lactations_summary (fst (FetchBatchData host (set_fault Lactations None db) clock rnd farmId ws wa wl wd dn))) \<and>
   starts (sessions_milk_yield (fst (FetchBatchData host db clock rnd farmId ws wa wl wd dn)))
     (sessions_milk_yield (fst (FetchBatchData host (set_fault Sessions None db) clock rnd farmId ws wa wl wd dn))) \<and>
   starts (voluntary_sessions_milk_yield (fst (FetchBatchData host db clock rnd farmId ws wa wl wd dn)))
     (voluntary_sessions_milk_yield (fst (FetchBatchData host (set_fault Voluntary None db) clock rnd farmId ws wa wl wd dn))) \<and>
   starts (history_milk_diversion_info (fst (FetchBatchData host db clock rnd farmId ws wa wl wd dn)))
     (history_milk_diversion_info (fst (FetchBatchData host (set_fault Diversions None db) clock rnd farmId ws wa wl wd dn)))"
  by (simp add: FetchBatchData_def case_prod_beta Let_def conn_opens_set_fault starts_refl
      fetch_streams_starts del: set_fault.simps)

lemma fetch_animals_cut:
  "flt_BasicAnimal db = Some k \<Longrightarrow>
   fetch_animals db y w = take k (fetch_animals (set_fault Animals None db) y w)"
  by (simp add: fetch_animals_def query_animals_def rows_read_def)

lemma fetch_lactations_cut:
  "flt_AnimalLactationSummary db = Some k \<Longrightarrow>
   fetch_lactations db y w = take k (fetch_lactations (set_fault Lactations None db) y w)"
  by (simp add: fetch_lactations_def query_lactations_def rows_read_def)

lemma fetch_sessions_cut:
  "flt_SessionMilkYield db = Some k \<Longrightarrow>
   fetch_sessions db y w = take k (fetch_sessions (set_fault Sessions None db) y w)"
proof -
  assume a: "flt_SessionMilkYield db = Some k"
  have "flt_SessionMilkYield (set_fault Sessions None db) = None"
    by simp
  with a show ?thesis
    by (simp add: fetch_sessions_def query_sessions_fault rows_read_def del: set_fault.simps)
qed

lemma fetch_diversions_cut:
  "flt_HistoryMilkDiversionInfo db = Some k \<Longrightarrow>
   fetch_diversions db w = take k (fetch_diversions (set_fault Diversions None db) w)"
  by (simp add: fetch_diversions_def query_diversions_def rows_read_def)

lemma fetch_history_cut:
  "flt_HistoryAnimal db = Some k \<Longrightarrow>
   fetch_history db animals = take k (fetch_history (set_fault HistoryAnimals None db) animals)"
  by (simp add: fetch_history_def query_history_def rows_read_def)

lemma fetch_voluntary_cut:
  "flt_VoluntarySessionMilkYield db = Some k \<Longrightarrow>
   fetch_voluntary db sessions = take k (fetch_voluntary (set_fault Voluntary None db) sessions)"
  by (simp add: fetch_voluntary_def query_voluntary_def rows_read_def split: option.splits)

lemma fetch_streams_cut:
  "flt_BasicAnimal db = Some k \<Longrightarrow>
   basic_animals (fetch_streams db clock farmId ws wa wl wd) =
     take k (basic_animals (fetch_streams (set_fault Animals None db) clock farmId ws wa wl wd))"
  "flt_HistoryAnimal db = Some k \<Longrightarrow>
   history_animals (fetch_streams db clock farmId ws wa wl wd) =
     take k (history_animals (fetch_streams (set_fault HistoryAnimals None db) clock farmId ws wa wl wd))"
  "flt_AnimalLactationSummary db = Some k \<Longrightarrow>
   lactations_summary (fetch_streams db clock farmId ws wa wl wd) =
     take k (lactations_summary (fetch_streams (set_fault Lactations None db) clock farmId ws wa wl wd))"
  "flt_SessionMilkYield db = Some k \<Longrightarrow>
   sessions_milk_yield (fetch_streams db clock farmId ws wa wl wd) =
     take k (sessions_milk_yield (fetch_streams (set_fault Sessions None db) clock farmId ws wa wl wd))"
  "flt_VoluntarySessionMilkYield db = Some k \<Longrightarrow>
   voluntary_sessions_milk_yield (fetch_streams db clock farmId ws wa wl wd) =
     take k (voluntary_sessions_milk_yield (fetch_streams (set_fault Voluntary None db) clock farmId ws wa wl wd))"
  "flt_HistoryMilkDiversionInfo db = Some k \<Longrightarrow>
   history_milk_diversion_info (fetch_streams db clock farmId ws wa wl wd) =
     take k (history_milk_diversion_info (fetch_streams (set_fault Diversions None db) clock farmId ws wa wl wd))"
  by (simp_all add: fetch_streams_fields fetch_set_fault del: set_fault.simps)
    (rule fetch_animals_cut, assumption, rule fetch_history_cut, assumption,
      rule fetch_lactations_cut, assumption, rule fetch_sessions_cut, assumption,
      rule fetch_voluntary_cut, assumption, rule fetch_diversions_cut, assumption)

lemma reads_store_set_fault: "reads_store host (set_fault s f db) dn = reads_store host db dn"
  by (simp add: reads_store_def conn_opens_set_fault)

lemma FetchBatchData_cut:
  assumes "reads_store host db dn"
  shows "(flt_BasicAnimal db = Some k \<longrightarrow>
       basic_animals (fst (FetchBatchData host db clock rnd farmId ws wa wl wd dn)) =
         take k (basic_animals (fst (FetchBatchData host (set_fault Animals None db) clock rnd farmId ws wa wl wd dn)))) \<and>
    (flt_HistoryAnimal db = Some k \<longrightarrow>
       history_animals (fst (FetchBatchData host db clock rnd farmId ws wa wl wd dn)) =
         take k (history_animals (fst (FetchBatchData host (set_fault HistoryAnimals None db) clock rnd farmId ws wa wl wd dn)))) \<and>
    (flt_AnimalLactationSummary db = Some k \<longrightarrow>
       lactations_summary (fst (FetchBatchData host db clock rnd farmId ws wa wl wd dn)) =
         take k (lactations_summary (fst (FetchBatchData host (set_fault Lactations None db) clock rnd farmId ws wa wl wd dn)))) \<and>
    (flt_SessionMilkYield db = Some k \<longrightarrow>
       sessions_milk_yield (fst (FetchBatchData host db clock rnd farmId ws wa wl wd dn)) =
         take k (sessions_milk_yield (fst (FetchBatchData host (set_fault Sessions None db) clock rnd farmId ws wa wl wd dn)))) \<and>
    (flt_VoluntarySessionMilkYield db = Some k \<longrightarrow>
       voluntary_sessions_milk_yield (fst (FetchBatchData host db clock rnd farmId ws wa wl wd dn)) =
         take k (voluntary_sessions_milk_yield (fst (FetchBatchData host (set_fault Voluntary None db) clock rnd farmId ws wa wl wd dn)))) \<and>
    (flt_HistoryMilkDiversionInfo db = Some k \<longrightarrow>
       history_milk_diversion_info (fst (FetchBatchData host db clock rnd farmId ws wa wl wd dn)) =
         take k (history_milk_diversion_info (fst (FetchBatchData host (set_fault Diversions None db) clock rnd farmId ws wa wl wd dn))))"
proof -
  have r: "reads_store host (set_fault s None db) dn" for s
    using assms by (simp add: reads_store_set_fault)
  show ?thesis
    by (simp add: FetchBatchData_reads [OF assms] FetchBatchData_reads [OF r] fetch_streams_cut
        del: set_fault.simps)
qed

lemma animals_fault_history:
  "reads_store host db dn \<Longrightarrow> read_throws (flt_BasicAnimal db) \<Longrightarrow>
   history_animals (fst (FetchBatchData host db clock rnd farmId ws wa wl wd dn)) = []"
  by (simp add: FetchBatchData_reads fetch_streams_fields fetch_history_def)

lemma connection_failure:
  "\<not> IsMockMode (Some (fst (GetConnectionString host dn))) \<Longrightarrow> \<not> conn_opens db \<Longrightarrow>
   fst (FetchBatchData host db clock rnd farmId ws wa wl wd dn) = empty_payload farmId"
  by (simp add: FetchBatchData_def case_prod_beta)

lemma empty_payload_skipped:
  "all_batches_empty (empty_payload farmId) \<and>
   UploadData (empty_payload farmId) answer = [Log Information ''No new data to upload.'']"
  by (simp add: all_batches_empty_def empty_payload_def UploadData_def nothing_to_upload_def)

lemma payload0_fault:
  "basic_animals (fst (FetchBatchData host0 (set_fault Animals (Some 1) db0) clock0 rnd0 ''farm-1''
      1 1 1 1 ''DelPro'')) =
     [\<lparr>ba_OID = 7, ba_ExitDate = None, ba_other = ''a7''\<rparr>]"
  by (simp add: FetchBatchData_def IsMockMode_def GetConnectionString_def host0_def
      IsNullOrEmpty_def db0_def clock0_def fetch_streams_def fetch_animals_def query_animals_def
      top_by_def batch_limit_def rows_read_def exit_recent_def Let_def)

text \<open>
  C8, as stated, fails: a read of the animals that throws after its first row leaves that
  row in the batch, so the batch of the failed stream is not empty.
\<close>

theorem failed_read_keeps_rows:
  "read_throws (read_fault Animals (set_fault Animals (Some 1) db0)) \<and>
   basic_animals (fst (FetchBatchData host0 (set_fault Animals (Some 1) db0) clock0 rnd0 ''farm-1''
      1 1 1 1 ''DelPro'')) \<noteq> []"
proof -
  have "read_throws (read_fault Animals (set_fault Animals (Some 1) db0))"
    by (simp add: read_throws_def)
  then show ?thesis
    unfolding payload0_fault by simp
qed

text \<open>
  C8, amended. When the agent reads the store, a read that throws after k rows leaves in
  the batch of its stream exactly the first k rows of the batch that the read would have
  returned without the failure; so a read that fails before its first row leaves the
  batch of that stream empty. The failure changes no list of the payload other than that
  of the stream itself and, for the animals and the sessions, the dependent list selected
  from their batch; a failed read of the animals leaves the history-animals list empty.
  If the connection cannot be opened, every list of the payload is empty and the upload
  is skipped.
\<close>

theorem read_failure_containment:
  "(reads_store host db dn \<longrightarrow>
    (flt_BasicAnimal db = Some k \<longrightarrow>
       basic_animals (fst (FetchBatchData host db clock rnd farmId ws wa wl wd dn)) =
         take k (basic_animals (fst (FetchBatchData host (set_fault Animals None db) clock rnd farmId ws wa wl wd dn)))) \<and>
    (flt_HistoryAnimal db = Some k \<longrightarrow>
       history_animals (fst (FetchBatchData host db clock rnd farmId ws wa wl wd dn)) =
         take k (history_animals (fst (FetchBatchData host (set_fault HistoryAnimals None db) clock rnd farmId ws wa wl wd dn)))) \<and>
    (flt_AnimalLactationSummary db = Some k \<longrightarrow>
       lactations_summary (fst (FetchBatchData host db clock rnd farmId ws wa wl wd dn)) =
         take k (lactations_summary (fst (FetchBatchData host (set_fault Lactations None db) clock rnd farmId ws wa wl wd dn)))) \<and>
    (flt_SessionMilkYield db = Some k \<longrightarrow>
       sessions_milk_yield (fst (FetchBatchData host db clock rnd farmId ws wa wl wd dn)) =
         take k (sessions_milk_yield (fst (FetchBatchData host (set_fault Sessions None db) clock rnd farmId ws wa wl wd dn)))) \<and>
    (flt_VoluntarySessionMilkYield db = Some k \<longrightarrow>
       voluntary_sessions_milk_yield (fst (FetchBatchData host db clock rnd farmId ws wa wl wd dn)) =
         take k (voluntary_sessions_milk_yield (fst (FetchBatchData host (set_fault Voluntary None db) clock rnd farmId ws wa wl wd dn)))) \<and>
    (flt_HistoryMilkDiversionInfo db = Some k \<longrightarrow>
       history_milk_diversion_info (fst (FetchBatchData host db clock rnd farmId ws wa wl wd dn)) =
         take k (history_milk_diversion_info (fst (FetchBatchData host (set_fault Diversions None db) clock rnd farmId ws wa wl wd dn))))) \<and>
   (reads_store host db dn \<and> read_fault s db = Some 0 \<longrightarrow>
      batch_size s (fst (FetchBatchData host db clock rnd farmId ws wa wl wd dn)) = 0) \<and>
   (reads_store host db dn \<and> read_throws (flt_BasicAnimal db) \<longrightarrow>
      history_animals (fst (FetchBatchData host db clock rnd farmId ws wa wl wd dn)) = []) \<and>
   starts (basic_animals (fst (FetchBatchData host db clock rnd farmId ws wa wl wd dn)))
     (basic_animals (fst (FetchBatchData host (set_fault Animals None db) clock rnd farmId ws wa wl wd dn))) \<and>
   starts (history_animals (fst (FetchBatchData host db clock rnd farmId ws wa wl wd dn)))
     (history_animals (fst (FetchBatchData host (set_fault HistoryAnimals None db) clock rnd farmId ws wa wl wd dn))) \<and>
   starts (lactations_summary (fst (FetchBatchData host db clock rnd farmId ws wa wl wd dn)))
     (lactations_summary (fst (FetchBatchData host (set_fault Lactations None db) clock rnd farmId ws wa wl wd dn))) \<and>
   starts (sessions_milk_yield (fst (FetchBatchData host db clock rnd farmId ws wa wl wd dn)))
     (sessions_milk_yield (fst (FetchBatchData host (set_fault Sessions None db) clock rnd farmId ws wa wl wd dn))) \<and>
   starts (voluntary_sessions_milk_yield (fst (FetchBatchData host db clock rnd farmId ws wa wl wd dn)))
     (voluntary_sessions_milk_yield (fst (FetchBatchData host (set_fault Voluntary None db) clock rnd farmId ws wa wl wd dn))) \<and>
   starts (history_milk_diversion_info (fst (FetchBatchData host db clock rnd farmId ws wa wl wd dn)))
     (history_milk_diversion_info (fst (FetchBatchData host (set_fault Diversions None db) clock rnd farmId ws wa wl wd dn))) \<and>
   outside s (fst (FetchBatchData host (set_fault s f db) clock rnd farmId ws wa wl wd dn)) =
     outside s (fst (FetchBatchData host db clock rnd farmId ws wa wl wd dn)) \<and>
   (\<not> IsMockMode (Some (fst (GetConnectionString host dn))) \<and> \<not> conn_opens db \<longrightarrow>
      fst (FetchBatchData host db clock rnd farmId ws wa wl wd dn) = empty_payload farmId \<and>
      all_batches_empty (fst (FetchBatchData host db clock rnd farmId ws wa wl wd dn)) \<and>
      UploadData (fst (FetchBatchData host db clock rnd farmId ws wa wl wd dn)) answer =
        [Log Information ''No new data to upload.''])"
proof -
  have cut: "reads_store host db dn \<longrightarrow>
    (flt_BasicAnimal db = Some k \<longrightarrow>
       basic_animals (fst (FetchBatchData host db clock rnd farmId ws wa wl wd dn)) =
         take k (basic_animals (fst (FetchBatchData host (set_fault Animals None db) clock rnd farmId ws wa wl wd dn)))) \<and>
    (flt_HistoryAnimal db = Some k \<longrightarrow>
       history_animals (fst (FetchBatchData host db clock rnd farmId ws wa wl wd dn)) =
         take k (history_animals (fst (FetchBatchData host (set_fault HistoryAnimals None db) clock rnd farmId ws wa wl wd dn)))) \<and>
    (flt_AnimalLactationSummary db = Some k \<longrightarrow>
       lactations_summary (fst (FetchBatchData host db clock rnd farmId ws wa wl wd dn)) =
         take k (lactations_summary (fst (FetchBatchData host (set_fault Lactations None db) clock rnd farmId ws wa wl wd dn)))) \<and>
    (flt_SessionMilkYield db = Some k \<longrightarrow>
       sessions_milk_yield (fst (FetchBatchData host db clock rnd farmId ws wa wl wd dn)) =
         take k (sessions_milk_yield (fst (FetchBatchData host (set_fault Sessions None db) clock rnd farmId ws wa wl wd dn)))) \<and>
    (flt_VoluntarySessionMilkYield db = Some k \<longrightarrow>
       voluntary_sessions_milk_yield (fst (FetchBatchData host db clock rnd farmId ws wa wl wd dn)) =
         take k (voluntary_sessions_milk_yield (fst (FetchBatchData host (set_fault Voluntary None db) clock rnd farmId ws wa wl wd dn)))) \<and>
    (flt_HistoryMilkDiversionInfo db = Some k \<longrightarrow>
       history_milk_diversion_info (fst (FetchBatchData host db clock rnd farmId ws wa wl wd dn)) =
         take k (history_milk_diversion_info (fst (FetchBatchData host (set_fault Diversions None db) clock rnd farmId ws wa wl wd dn))))"
    using FetchBatchData_cut [of host db dn k clock rnd farmId ws wa wl wd] by blast
  have rest: "(reads_store host db dn \<and> read_fault s db = Some 0 \<longrightarrow>
      batch_size s (fst (FetchBatchData host db clock rnd farmId ws wa wl wd dn)) = 0) \<and>
   (reads_store host db dn \<and> read_throws (flt_BasicAnimal db) \<longrightarrow>
      history_animals (fst (FetchBatchData host db clock rnd farmId ws wa wl wd dn)) = []) \<and>
   starts (basic_animals (fst (FetchBatchData host db clock rnd farmId ws wa wl wd dn)))
     (basic_animals (fst (FetchBatchData host (set_fault Animals None db) clock rnd farmId ws wa wl wd dn))) \<and>
   starts (history_animals (fst (FetchBatchData host db clock rnd farmId ws wa wl wd dn)))
     (history_animals (fst (FetchBatchData host (set_fault HistoryAnimals None db) clock rnd farmId ws wa wl wd dn))) \<and>
   starts (lactations_summary (fst (FetchBatchData host db clock rnd farmId ws wa wl wd dn)))
     (lactations_summary (fst (FetchBatchData host (set_fault Lactations None db) clock rnd farmId ws wa wl wd dn))) \<and>
   starts (sessions_milk_yield (fst (FetchBatchData host db clock rnd farmId ws wa wl wd dn)))
     (sessions_milk_yield (fst (FetchBatchData host (set_fault Sessions None db) clock rnd farmId ws wa wl wd dn))) \<and>
   starts (voluntary_sessions_milk_yield (fst (FetchBatchData host db clock rnd farmId ws wa wl wd dn)))
     (voluntary_sessions_milk_yield (fst (FetchBatchData host (set_fault Voluntary None db) clock rnd farmId ws wa wl wd dn))) \<and>
   starts (history_milk_diversion_info (fst (FetchBatchData host db clock rnd farmId ws wa wl wd dn)))
     (history_milk_diversion_info (fst (FetchBatchData host (set_fault Diversions None db) clock rnd farmId ws wa wl wd dn))) \<and>
   outside s (fst (FetchBatchData host (set_fault s f db) clock rnd farmId ws wa wl wd dn)) =
     outside s (fst (FetchBatchData host db clock rnd farmId ws wa wl wd dn)) \<and>
   (\<not> IsMockMode (Some (fst (GetConnectionString host dn))) \<and> \<not> conn_opens db \<longrightarrow>
      fst (FetchBatchData host db clock rnd farmId ws wa wl wd dn) = empty_payload farmId \<and>
      all_batches_empty (fst (FetchBatchData host db clock rnd farmId ws wa wl wd dn)) \<and>
      UploadData (fst (FetchBatchData host db clock rnd farmId ws wa wl wd dn)) answer =
        [Log Information ''No new data to upload.''])"
  using fault_at_first_row [of host db dn s clock rnd farmId ws wa wl wd]
    animals_fault_history [of host db dn clock rnd farmId ws wa wl wd]
    FetchBatchData_starts [of host db clock rnd farmId ws wa wl wd dn]
    outside_frame [of s host f db clock rnd farmId ws wa wl wd dn]
    connection_failure [of host dn db clock rnd farmId ws wa wl wd]
    empty_payload_skipped [of farmId answer]
  by simp
  show ?thesis
    by (rule conjI [OF cut rest])
qed

theorem read_failure_containment_witness:
  "reads_store host0 (set_fault Lactations (Some 0) db0) ''DelPro'' \<and>
   read_fault Lactations (set_fault Lactations (Some 0) db0) = Some 0 \<and>
   lactations_summary (fst (FetchBatchData host0 (set_fault Lactations (Some 0) db0) clock0 rnd0
      ''farm-1'' 1 1 1 1 ''DelPro'')) = [] \<and>
   basic_animals (fst (FetchBatchData host0 (set_fault Lactations (Some 0) db0) clock0 rnd0
      ''farm-1'' 1 1 1 1 ''DelPro'')) =
     basic_animals (fst (FetchBatchData host0 db0 clock0 rnd0 ''farm-1'' 1 1 1 1 ''DelPro'')) \<and>
   reads_store host0 (set_fault Animals (Some 1) db0) ''DelPro'' \<and>
   flt_BasicAnimal (set_fault Animals (Some 1) db0) = Some 1 \<and>
   basic_animals (fst (FetchBatchData host0 (set_fault Animals (Some 1) db0) clock0 rnd0
      ''farm-1'' 1 1 1 1 ''DelPro'')) =
     [\<lparr>ba_OID = 7, ba_ExitDate = None, ba_other = ''a7''\<rparr>] \<and>
   \<not> IsMockMode (Some (fst (GetConnectionString host0 ''DelPro''))) \<and>
   \<not> conn_opens (db0\<lparr>conn_opens := False\<rparr>) \<and>
   UploadData (fst (FetchBatchData host0 (db0\<lparr>conn_opens := False\<rparr>) clock0 rnd0 ''farm-1''
      1 1 1 1 ''DelPro'')) PostThrows = [Log Information ''No new data to upload.'']"
proof -
  let ?db = "set_fault Lactations (Some 0) db0"
  let ?da = "set_fault Animals (Some 1) db0"
  let ?F = "\<lambda>d. fst (FetchBatchData host0 d clock0 rnd0 ''farm-1'' 1 1 1 1 ''DelPro'')"
  note T1 = read_failure_containment [where host = host0 and db = "?db" and dn = "''DelPro''"
      and s = Lactations and f = "None" and k = 0 and clock = clock0 and rnd = rnd0
      and farmId = "''farm-1''" and ws = 1 and wa = 1 and wl = 1 and wd = 1 and answer = PostThrows]
  note T2 = read_failure_containment [where host = host0 and db = "db0" and dn = "''DelPro''"
      and s = Lactations and f = "Some 0" and k = 0 and clock = clock0 and rnd = rnd0
      and farmId = "''farm-1''" and ws = 1 and wa = 1 and wl = 1 and wd = 1 and answer = PostThrows]
  note T3 = read_failure_containment [where host = host0 and db = "?da" and dn = "''DelPro''"
      and s = Animals and f = "None" and k = 1 and clock = clock0 and rnd = rnd0
      and farmId = "''farm-1''" and ws = 1 and wa = 1 and wl = 1 and wd = 1 and answer = PostThrows]
  note T4 = read_failure_containment [where host = host0 and db = "db0\<lparr>conn_opens := False\<rparr>" and dn = "''DelPro''"
      and s = Animals and f = "None" and k = 0 and clock = clock0 and rnd = rnd0
      and farmId = "''farm-1''" and ws = 1 and wa = 1 and wl = 1 and wd = 1 and answer = PostThrows]
  have r: "reads_store host0 ?db ''DelPro''"
    using host0_reads_store [of "''DelPro''"] by (simp add: reads_store_def)
  have ra: "reads_store host0 ?da ''DelPro''"
    using host0_reads_store [of "''DelPro''"] by (simp add: reads_store_def)
  have q: "read_fault Lactations ?db = Some 0"
    by simp
  have qa: "flt_BasicAnimal ?da = Some 1"
    by simp
  have m: "\<not> IsMockMode (Some (fst (GetConnectionString host0 ''DelPro'')))"
    using host0_reads_store [of "''DelPro''"] by (simp add: reads_store_def)
  have c: "\<not> conn_opens (db0\<lparr>conn_opens := False\<rparr>)"
    by simp
  have "batch_size Lactations (?F ?db) = 0"
    using r q T1 [THEN conjunct2, THEN conjunct1] by (simp del: set_fault.simps)
  then have z: "lactations_summary (?F ?db) = []"
    by simp
  have "outside Lactations (?F ?db) = outside Lactations (?F db0)"
    by (rule T2 [THEN conjunct2, THEN conjunct2, THEN conjunct2, THEN conjunct2, THEN conjunct2, THEN conjunct2, THEN conjunct2, THEN conjunct2, THEN conjunct2, THEN conjunct1])
  then have "basic_animals (outside Lactations (?F ?db)) = basic_animals (outside Lactations (?F db0))"
    by (simp only:)
  then have b: "basic_animals (?F ?db) = basic_animals (?F db0)"
    by (simp add: outside_def)
  have "basic_animals (?F ?da) = take 1 (basic_animals (?F (set_fault Animals None ?da)))"
    using ra qa T3 [THEN conjunct1] by (simp del: set_fault.simps)
  moreover have "set_fault Animals None ?da = db0"
    by (simp add: db0_def)
  ultimately have v: "basic_animals (?F ?da) = [\<lparr>ba_OID = 7, ba_ExitDate = None, ba_other = ''a7''\<rparr>]"
    by (simp only: payload0) simp
  have "\<not> IsMockMode (Some (fst (GetConnectionString host0 ''DelPro''))) \<and>
        \<not> conn_opens (db0\<lparr>conn_opens := False\<rparr>) \<longrightarrow>
        ?F (db0\<lparr>conn_opens := False\<rparr>) = empty_payload ''farm-1'' \<and>
        all_batches_empty (?F (db0\<lparr>conn_opens := False\<rparr>)) \<and>
        UploadData (?F (db0\<lparr>conn_opens := False\<rparr>)) PostThrows =
          [Log Information ''No new data to upload.'']"
    by (rule T4 [THEN conjunct2, THEN conjunct2, THEN conjunct2, THEN conjunct2, THEN conjunct2, THEN conjunct2, THEN conjunct2, THEN conjunct2, THEN conjunct2, THEN conjunct2])
  with m c have u: "UploadData (?F (db0\<lparr>conn_opens := False\<rparr>)) PostThrows =
             [Log Information ''No new data to upload.'']"
    by blast
  show ?thesis
    by (intro conjI) (rule r, rule q, rule z, rule b, rule ra, rule qa, rule v, rule m, rule c,
      rule u)
qed

end
